theory Spec2Isabelle
  imports Main "HOL-Library.Word"
begin

section \<open>Attribute values of the plugin framework\<close>

text \<open>
  The provider keeps every attribute as a framework value (\<^verbatim>\<open>types.Bool\<close>,
  \<^verbatim>\<open>types.Int64\<close>, \<^verbatim>\<open>types.String\<close>, \<^verbatim>\<open>types.Set\<close>). Such a value is null
  (the Go zero value), unknown, or known with a payload. The accessors
  \<^verbatim>\<open>ValueBool\<close>, \<^verbatim>\<open>ValueInt64\<close> and \<^verbatim>\<open>ValueString\<close> return the payload, and
  the zero of the payload type when the value is null or unknown.
\<close>

datatype 'a Value = Null | Unknown | Known 'a

type_synonym int32 = "32 word"
type_synonym int64 = "64 word"

type_synonym types_Bool = "bool Value"
type_synonym types_Int64 = "int64 Value"
type_synonym types_String = "string Value"
type_synonym types_Int64Set = "int64 Value list Value"
type_synonym types_StringSet = "string Value list Value"

fun ValueBool :: "types_Bool \<Rightarrow> bool" where
  "ValueBool (Known b) = b"
| "ValueBool _ = False"

fun ValueInt64 :: "types_Int64 \<Rightarrow> int64" where
  "ValueInt64 (Known i) = i"
| "ValueInt64 _ = 0"

fun ValueString :: "types_String \<Rightarrow> string" where
  "ValueString (Known s) = s"
| "ValueString _ = []"

definition BoolValue :: "bool \<Rightarrow> types_Bool" where
  "BoolValue b = Known b"

definition Int64Value :: "int64 \<Rightarrow> types_Int64" where
  "Int64Value i = Known i"

definition StringValue :: "string \<Rightarrow> types_String" where
  "StringValue s = Known s"

section \<open>The generic notification record and the variant records\<close>

text \<open>
  The declaration of the generic \<^verbatim>\<open>Notification\<close> struct is not among the sources.
  Its slots are taken from the four adapters that fill it (custom script, gotify,
  email, subsonic): one slot per attribute any of them assigns, with the type the
  adapter's own struct gives that attribute, plus the identity pair
  \<^verbatim>\<open>Implementation\<close> and \<^verbatim>\<open>ConfigContract\<close>.
\<close>

record Notification =
  Tags :: types_Int64Set
  To :: types_StringSet
  Cc :: types_StringSet
  Bcc :: types_StringSet
  Arguments :: types_String
  Path :: types_String
  From :: types_String
  Server :: types_String
  Host :: types_String
  URLBase :: types_String
  AppToken :: types_String
  Username :: types_String
  Password :: types_String
  Name :: types_String
  Implementation :: types_String
  ConfigContract :: types_String
  Priority :: types_Int64
  Port :: types_Int64
  ID :: types_Int64
  RequireEncryption :: types_Bool
  UseSSL :: types_Bool
  Notify :: types_Bool
  UpdateLibrary :: types_Bool
  OnGrab :: types_Bool
  OnReleaseImport :: types_Bool
  OnAlbumDelete :: types_Bool
  OnArtistDelete :: types_Bool
  OnUpgrade :: types_Bool
  OnRename :: types_Bool
  OnHealthIssue :: types_Bool
  OnHealthRestored :: types_Bool
  OnDownloadFailure :: types_Bool
  OnImportFailure :: types_Bool
  OnTrackRetag :: types_Bool
  IncludeHealthWarnings :: types_Bool
  OnApplicationUpdate :: types_Bool

text \<open>A Go composite literal leaves every slot it does not name at its zero value: null.\<close>

definition Notification_zero :: Notification where
  "Notification_zero = \<lparr>
     Tags = Null, To = Null, Cc = Null, Bcc = Null,
     Arguments = Null, Path = Null, From = Null, Server = Null, Host = Null,
     URLBase = Null, AppToken = Null, Username = Null, Password = Null, Name = Null,
     Implementation = Null, ConfigContract = Null,
     Priority = Null, Port = Null, ID = Null,
     RequireEncryption = Null, UseSSL = Null, Notify = Null, UpdateLibrary = Null,
     OnGrab = Null, OnReleaseImport = Null, OnAlbumDelete = Null, OnArtistDelete = Null,
     OnUpgrade = Null, OnRename = Null, OnHealthIssue = Null, OnHealthRestored = Null,
     OnDownloadFailure = Null, OnImportFailure = Null, OnTrackRetag = Null,
     IncludeHealthWarnings = Null, OnApplicationUpdate = Null \<rparr>"

subsection \<open>Custom script\<close>

text \<open>
  The fields of each variant record carry a suffix naming the variant
  (\<open>_cs\<close>, \<open>_go\<close>, \<open>_em\<close>, \<open>_su\<close>), since all four structs use the same
  field names.
\<close>

definition notificationCustomScriptResourceName :: string where
  "notificationCustomScriptResourceName = ''notification_custom_script''"

definition notificationCustomScriptImplementation :: string where
  "notificationCustomScriptImplementation = ''CustomScript''"

definition notificationCustomScriptConfigContract :: string where
  "notificationCustomScriptConfigContract = ''CustomScriptSettings''"

record NotificationCustomScript =
  Tags_cs :: types_Int64Set
  Arguments_cs :: types_String
  Path_cs :: types_String
  Name_cs :: types_String
  ID_cs :: types_Int64
  OnGrab_cs :: types_Bool
  OnReleaseImport_cs :: types_Bool
  OnUpgrade_cs :: types_Bool
  OnRename_cs :: types_Bool
  OnHealthIssue_cs :: types_Bool
  OnHealthRestored_cs :: types_Bool
  OnDownloadFailure_cs :: types_Bool
  OnImportFailure_cs :: types_Bool
  OnTrackRetag_cs :: types_Bool
  IncludeHealthWarnings_cs :: types_Bool
  OnApplicationUpdate_cs :: types_Bool

definition toNotification_cs :: "NotificationCustomScript \<Rightarrow> Notification" where
  "toNotification_cs n = Notification_zero \<lparr>
     Tags := Tags_cs n,
     Path := Path_cs n,
     Arguments := Arguments_cs n,
     Name := Name_cs n,
     ID := ID_cs n,
     OnGrab := OnGrab_cs n,
     OnReleaseImport := OnReleaseImport_cs n,
     OnDownloadFailure := OnDownloadFailure_cs n,
     IncludeHealthWarnings := IncludeHealthWarnings_cs n,
     OnApplicationUpdate := OnApplicationUpdate_cs n,
     OnHealthIssue := OnHealthIssue_cs n,
     OnHealthRestored := OnHealthRestored_cs n,
     OnImportFailure := OnImportFailure_cs n,
     OnRename := OnRename_cs n,
     OnUpgrade := OnUpgrade_cs n,
     OnTrackRetag := OnTrackRetag_cs n,
     Implementation := StringValue notificationCustomScriptImplementation,
     ConfigContract := StringValue notificationCustomScriptConfigContract \<rparr>"

text \<open>\<^verbatim>\<open>fromNotification\<close> assigns through the receiver pointer; the model returns the
  updated receiver.\<close>

definition fromNotification_cs ::
  "NotificationCustomScript \<Rightarrow> Notification \<Rightarrow> NotificationCustomScript" where
  "fromNotification_cs n notification = n \<lparr>
     Tags_cs := Tags notification,
     Path_cs := Path notification,
     Arguments_cs := Arguments notification,
     Name_cs := Name notification,
     ID_cs := ID notification,
     OnGrab_cs := OnGrab notification,
     OnTrackRetag_cs := OnTrackRetag notification,
     OnDownloadFailure_cs := OnDownloadFailure notification,
     IncludeHealthWarnings_cs := IncludeHealthWarnings notification,
     OnApplicationUpdate_cs := OnApplicationUpdate notification,
     OnHealthIssue_cs := OnHealthIssue notification,
     OnHealthRestored_cs := OnHealthRestored notification,
     OnReleaseImport_cs := OnReleaseImport notification,
     OnRename_cs := OnRename notification,
     OnUpgrade_cs := OnUpgrade notification,
     OnImportFailure_cs := OnImportFailure notification \<rparr>"

subsection \<open>Gotify\<close>

definition notificationGotifyResourceName :: string where
  "notificationGotifyResourceName = ''notification_gotify''"

definition notificationGotifyImplementation :: string where
  "notificationGotifyImplementation = ''Gotify''"

definition notificationGotifyConfigContract :: string where
  "notificationGotifyConfigContract = ''GotifySettings''"

record NotificationGotify =
  Tags_go :: types_Int64Set
  Server_go :: types_String
  Name_go :: types_String
  AppToken_go :: types_String
  Priority_go :: types_Int64
  ID_go :: types_Int64
  OnGrab_go :: types_Bool
  OnReleaseImport_go :: types_Bool
  OnAlbumDelete_go :: types_Bool
  OnArtistDelete_go :: types_Bool
  IncludeHealthWarnings_go :: types_Bool
  OnApplicationUpdate_go :: types_Bool
  OnHealthIssue_go :: types_Bool
  OnHealthRestored_go :: types_Bool
  OnDownloadFailure_go :: types_Bool
  OnUpgrade_go :: types_Bool
  OnImportFailure_go :: types_Bool

definition toNotification_go :: "NotificationGotify \<Rightarrow> Notification" where
  "toNotification_go n = Notification_zero \<lparr>
     Tags := Tags_go n,
     Server := Server_go n,
     AppToken := AppToken_go n,
     Priority := Priority_go n,
     Name := Name_go n,
     ID := ID_go n,
     OnGrab := OnGrab_go n,
     OnReleaseImport := OnReleaseImport_go n,
     OnAlbumDelete := OnAlbumDelete_go n,
     OnArtistDelete := OnArtistDelete_go n,
     IncludeHealthWarnings := IncludeHealthWarnings_go n,
     OnApplicationUpdate := OnApplicationUpdate_go n,
     OnHealthIssue := OnHealthIssue_go n,
     OnHealthRestored := OnHealthRestored_go n,
     OnDownloadFailure := OnDownloadFailure_go n,
     OnUpgrade := OnUpgrade_go n,
     OnImportFailure := OnImportFailure_go n,
     Implementation := StringValue notificationGotifyImplementation,
     ConfigContract := StringValue notificationGotifyConfigContract \<rparr>"

definition fromNotification_go ::
  "NotificationGotify \<Rightarrow> Notification \<Rightarrow> NotificationGotify" where
  "fromNotification_go n notification = n \<lparr>
     Tags_go := Tags notification,
     Server_go := Server notification,
     AppToken_go := AppToken notification,
     Priority_go := Priority notification,
     Name_go := Name notification,
     ID_go := ID notification,
     OnGrab_go := OnGrab notification,
     OnReleaseImport_go := OnReleaseImport notification,
     OnAlbumDelete_go := OnAlbumDelete notification,
     OnArtistDelete_go := OnArtistDelete notification,
     IncludeHealthWarnings_go := IncludeHealthWarnings notification,
     OnApplicationUpdate_go := OnApplicationUpdate notification,
     OnHealthIssue_go := OnHealthIssue notification,
     OnHealthRestored_go := OnHealthRestored notification,
     OnDownloadFailure_go := OnDownloadFailure notification,
     OnUpgrade_go := OnUpgrade notification,
     OnImportFailure_go := OnImportFailure notification \<rparr>"

subsection \<open>Email\<close>

text \<open>The email adapter's \<^verbatim>\<open>toNotification\<close> names no identity pair: both slots stay null.\<close>

definition notificationEmailResourceName :: string where
  "notificationEmailResourceName = ''notification_email''"

definition notificationEmailImplementation :: string where
  "notificationEmailImplementation = ''Email''"

definition notificationEmailConfigContract :: string where
  "notificationEmailConfigContract = ''EmailSettings''"

record NotificationEmail =
  Tags_em :: types_Int64Set
  To_em :: types_StringSet
  Cc_em :: types_StringSet
  Bcc_em :: types_StringSet
  From_em :: types_String
  Server_em :: types_String
  Name_em :: types_String
  Username_em :: types_String
  Password_em :: types_String
  ID_em :: types_Int64
  Port_em :: types_Int64
  RequireEncryption_em :: types_Bool
  OnGrab_em :: types_Bool
  OnReleaseImport_em :: types_Bool
  IncludeHealthWarnings_em :: types_Bool
  OnApplicationUpdate_em :: types_Bool
  OnHealthIssue_em :: types_Bool
  OnDownloadFailure_em :: types_Bool
  OnUpgrade_em :: types_Bool
  OnImportFailure_em :: types_Bool

definition toNotification_em :: "NotificationEmail \<Rightarrow> Notification" where
  "toNotification_em n = Notification_zero \<lparr>
     Tags := Tags_em n,
     From := From_em n,
     To := To_em n,
     Cc := Cc_em n,
     Bcc := Bcc_em n,
     Server := Server_em n,
     Port := Port_em n,
     Username := Username_em n,
     Password := Password_em n,
     Name := Name_em n,
     ID := ID_em n,
     RequireEncryption := RequireEncryption_em n,
     OnGrab := OnGrab_em n,
     OnReleaseImport := OnReleaseImport_em n,
     IncludeHealthWarnings := IncludeHealthWarnings_em n,
     OnApplicationUpdate := OnApplicationUpdate_em n,
     OnHealthIssue := OnHealthIssue_em n,
     OnDownloadFailure := OnDownloadFailure_em n,
     OnUpgrade := OnUpgrade_em n,
     OnImportFailure := OnImportFailure_em n \<rparr>"

definition fromNotification_em ::
  "NotificationEmail \<Rightarrow> Notification \<Rightarrow> NotificationEmail" where
  "fromNotification_em n notification = n \<lparr>
     Tags_em := Tags notification,
     From_em := From notification,
     To_em := To notification,
     Cc_em := Cc notification,
     Bcc_em := Bcc notification,
     Server_em := Server notification,
     Port_em := Port notification,
     Username_em := Username notification,
     Password_em := Password notification,
     Name_em := Name notification,
     ID_em := ID notification,
     RequireEncryption_em := RequireEncryption notification,
     OnGrab_em := OnGrab notification,
     OnReleaseImport_em := OnReleaseImport notification,
     IncludeHealthWarnings_em := IncludeHealthWarnings notification,
     OnApplicationUpdate_em := OnApplicationUpdate notification,
     OnHealthIssue_em := OnHealthIssue notification,
     OnDownloadFailure_em := OnDownloadFailure notification,
     OnUpgrade_em := OnUpgrade notification,
     OnImportFailure_em := OnImportFailure notification \<rparr>"

subsection \<open>Subsonic\<close>

text \<open>As for email, \<^verbatim>\<open>toNotification\<close> leaves the identity pair null; the constants
  below are the ones the source declares for this variant.\<close>

definition notificationSubsonicResourceName :: string where
  "notificationSubsonicResourceName = ''notification_subsonic''"

definition notificationSubsonicImplementation :: string where
  "notificationSubsonicImplementation = ''Xbmc''"

definition notificationSubsonicConfigContract :: string where
  "notificationSubsonicConfigContract = ''XbmcSettings''"

record NotificationSubsonic =
  Tags_su :: types_Int64Set
  Host_su :: types_String
  Name_su :: types_String
  Username_su :: types_String
  Password_su :: types_String
  URLBase_su :: types_String
  Port_su :: types_Int64
  ID_su :: types_Int64
  OnGrab_su :: types_Bool
  UseSSL_su :: types_Bool
  Notify_su :: types_Bool
  UpdateLibrary_su :: types_Bool
  OnReleaseImport_su :: types_Bool
  OnTrackRetag_su :: types_Bool
  OnRename_su :: types_Bool
  IncludeHealthWarnings_su :: types_Bool
  OnHealthIssue_su :: types_Bool
  OnUpgrade_su :: types_Bool

definition toNotification_su :: "NotificationSubsonic \<Rightarrow> Notification" where
  "toNotification_su n = Notification_zero \<lparr>
     Tags := Tags_su n,
     Port := Port_su n,
     Host := Host_su n,
     URLBase := URLBase_su n,
     Password := Password_su n,
     Username := Username_su n,
     Name := Name_su n,
     ID := ID_su n,
     UseSSL := UseSSL_su n,
     Notify := Notify_su n,
     UpdateLibrary := UpdateLibrary_su n,
     OnGrab := OnGrab_su n,
     OnReleaseImport := OnReleaseImport_su n,
     OnRename := OnRename_su n,
     OnTrackRetag := OnTrackRetag_su n,
     IncludeHealthWarnings := IncludeHealthWarnings_su n,
     OnHealthIssue := OnHealthIssue_su n,
     OnUpgrade := OnUpgrade_su n \<rparr>"

definition fromNotification_su ::
  "NotificationSubsonic \<Rightarrow> Notification \<Rightarrow> NotificationSubsonic" where
  "fromNotification_su n notification = n \<lparr>
     Tags_su := Tags notification,
     Port_su := Port notification,
     URLBase_su := URLBase notification,
     Host_su := Host notification,
     Password_su := Password notification,
     Username_su := Username notification,
     Name_su := Name notification,
     ID_su := ID notification,
     UseSSL_su := UseSSL notification,
     Notify_su := Notify notification,
     UpdateLibrary_su := UpdateLibrary notification,
     OnGrab_su := OnGrab notification,
     OnReleaseImport_su := OnReleaseImport notification,
     OnTrackRetag_su := OnTrackRetag notification,
     IncludeHealthWarnings_su := IncludeHealthWarnings notification,
     OnHealthIssue_su := OnHealthIssue notification,
     OnRename_su := OnRename notification,
     OnUpgrade_su := OnUpgrade notification \<rparr>"

section \<open>Errors and diagnostics\<close>

text \<open>
  A Go \<^verbatim>\<open>error\<close> returned by a client call is either the server's answer that the
  record does not exist, or any other failure (network, status, decoding) with its text.
  \<^verbatim>\<open>tools.ErrDataNotFoundError\<close> builds the error of a failed lookup by name; its
  arguments are kept.
\<close>

datatype error =
    NotFound
  | Failure string
  | ErrDataNotFoundError string string string

text \<open>
  The summary constants of the \<^verbatim>\<open>helpers\<close> and \<^verbatim>\<open>tools\<close> packages are not among the
  sources; each is kept by its name.
\<close>

datatype Summary =
    ClientError
  | DataSourceError
  | UnexpectedImportIdentifier
  | UnexpectedResourceConfigureType
  | UnexpectedDataSourceConfigureType
  | InvalidAttributeValueMatch

datatype action = Create | Read | Update | Delete

text \<open>An argument of a formatted message: a string, an error (\<^verbatim>\<open>%s\<close> prints its
  text), a value printed by its type (\<^verbatim>\<open>%T\<close>), or a number.\<close>

datatype Arg = S string | E error | T string | I int

text \<open>
  The detail of a diagnostic is kept as the call that builds it. A detail built in place
  is the \<^verbatim>\<open>fmt.Sprintf\<close> call: format string and arguments. The text that
  \<^verbatim>\<open>helpers.ParseClientError\<close> builds is not among the sources, nor are the strings
  behind the labels \<^verbatim>\<open>helpers.Create\<close>, \<^verbatim>\<open>helpers.Read\<close>, \<^verbatim>\<open>helpers.Update\<close> and
  \<^verbatim>\<open>helpers.Delete\<close>: such a detail is the call's three arguments, the label among
  them, with nothing assumed about the text.
\<close>

datatype Detail =
    Sprintf string "Arg list"
  | ParseClientError action string error

datatype Severity = SeverityError | SeverityWarning

record Diagnostic =
  severity :: Severity
  summary :: Summary
  detail :: Detail

type_synonym Diagnostics = "Diagnostic list"

definition HasError :: "Diagnostics \<Rightarrow> bool" where
  "HasError diags = list_ex (\<lambda>d. severity d = SeverityError) diags"

text \<open>\<^verbatim>\<open>Diagnostics.Append\<close> skips a diagnostic the collection already contains.\<close>

fun Append :: "Diagnostics \<Rightarrow> Diagnostics \<Rightarrow> Diagnostics" where
  "Append diags [] = diags"
| "Append diags (d # ds) = Append (if d \<in> set diags then diags else diags @ [d]) ds"

definition AddError :: "Summary \<Rightarrow> Detail \<Rightarrow> Diagnostics \<Rightarrow> Diagnostics" where
  "AddError s d diags = Append diags [\<lparr> severity = SeverityError, summary = s, detail = d \<rparr>]"

section \<open>Decimal text\<close>

text \<open>
  \<^verbatim>\<open>strconv.Itoa\<close> and \<^verbatim>\<open>strconv.Atoi\<close> of the Go standard library, for the 64-bit
  \<^verbatim>\<open>int\<close>. \<^verbatim>\<open>Atoi\<close> accepts an optional sign followed by at least one decimal digit
  and nothing else; it fails with a syntax error otherwise, and with a range error when
  the value does not fit.
\<close>

definition digit_char :: "nat \<Rightarrow> char" where
  "digit_char d = ''0123456789'' ! d"

function Itoa_nat :: "nat \<Rightarrow> string" where
  "Itoa_nat n = (if n < 10 then [digit_char n] else Itoa_nat (n div 10) @ [digit_char (n mod 10)])"
  by pat_completeness auto
termination
  by (relation "measure id") auto

definition Itoa :: "int \<Rightarrow> string" where
  "Itoa i = (if i < 0 then CHR ''-'' # Itoa_nat (nat (- i)) else Itoa_nat (nat i))"

datatype NumError = ErrSyntax | ErrRange

definition digit_val :: "char \<Rightarrow> nat option" where
  "digit_val c = (let v = (of_char c :: nat) in if 48 \<le> v \<and> v \<le> 57 then Some (v - 48) else None)"

fun parse_digits :: "nat \<Rightarrow> string \<Rightarrow> nat option" where
  "parse_digits acc [] = Some acc"
| "parse_digits acc (c # cs) =
     (case digit_val c of None \<Rightarrow> None | Some d \<Rightarrow> parse_digits (acc * 10 + d) cs)"

definition Atoi_unsigned :: "bool \<Rightarrow> string \<Rightarrow> NumError + int" where
  "Atoi_unsigned neg ds =
     (if ds = [] then Inl ErrSyntax
      else case parse_digits 0 ds of
             None \<Rightarrow> Inl ErrSyntax
           | Some u \<Rightarrow>
               if neg then (if u > 2 ^ 63 then Inl ErrRange else Inr (- int u))
               else (if u \<ge> 2 ^ 63 then Inl ErrRange else Inr (int u)))"

fun Atoi :: "string \<Rightarrow> NumError + int" where
  "Atoi [] = Inl ErrSyntax"
| "Atoi (c # cs) =
     (if c = CHR ''-'' then Atoi_unsigned True cs
      else if c = CHR ''+'' then Atoi_unsigned False cs
      else Atoi_unsigned False (c # cs))"

section \<open>Wire records\<close>

text \<open>
  The sources come from three revisions of the provider, which talk to the server through
  two client libraries. The generated client (\<^verbatim>\<open>lidarr.APIClient\<close>) exchanges
  \<^verbatim>\<open>NotificationResource\<close>, whose members are unset until a setter is called and whose
  getters return the zero value of an unset member. The older client
  (\<^verbatim>\<open>lidarr.Lidarr\<close>) sends \<^verbatim>\<open>NotificationInput\<close> and receives
  \<^verbatim>\<open>NotificationOutput\<close>, plain structs. The model uses one type of wire field for both.
\<close>

datatype FieldValue =
    BoolField bool
  | IntField int
  | StringField string
  | IntsField "int list"
  | StringsField "string list"

record Field =
  field_name :: string
  field_value :: FieldValue

record NotificationResource =
  nr_Id :: "int32 option"
  nr_Name :: "string option"
  nr_Fields :: "Field list"
  nr_Implementation :: "string option"
  nr_ConfigContract :: "string option"
  nr_Tags :: "int32 option list"
  nr_OnGrab :: "bool option"
  nr_OnReleaseImport :: "bool option"
  nr_OnAlbumDelete :: "bool option"
  nr_OnArtistDelete :: "bool option"
  nr_OnUpgrade :: "bool option"
  nr_OnRename :: "bool option"
  nr_OnHealthIssue :: "bool option"
  nr_OnHealthRestored :: "bool option"
  nr_OnDownloadFailure :: "bool option"
  nr_OnImportFailure :: "bool option"
  nr_OnTrackRetag :: "bool option"
  nr_OnApplicationUpdate :: "bool option"
  nr_IncludeHealthWarnings :: "bool option"

definition NewNotificationResource :: NotificationResource where
  "NewNotificationResource = \<lparr>
     nr_Id = None, nr_Name = None, nr_Fields = [], nr_Implementation = None,
     nr_ConfigContract = None, nr_Tags = [],
     nr_OnGrab = None, nr_OnReleaseImport = None, nr_OnAlbumDelete = None,
     nr_OnArtistDelete = None, nr_OnUpgrade = None, nr_OnRename = None,
     nr_OnHealthIssue = None, nr_OnHealthRestored = None, nr_OnDownloadFailure = None,
     nr_OnImportFailure = None, nr_OnTrackRetag = None, nr_OnApplicationUpdate = None,
     nr_IncludeHealthWarnings = None \<rparr>"

definition GetBool :: "bool option \<Rightarrow> bool" where
  "GetBool p = (case p of None \<Rightarrow> False | Some b \<Rightarrow> b)"

definition GetString :: "string option \<Rightarrow> string" where
  "GetString p = (case p of None \<Rightarrow> [] | Some v \<Rightarrow> v)"

definition GetId :: "NotificationResource \<Rightarrow> int32" where
  "GetId r = (case nr_Id r of None \<Rightarrow> 0 | Some i \<Rightarrow> i)"

record NotificationInput =
  ni_OnGrab :: bool
  ni_OnImportFailure :: bool
  ni_OnUpgrade :: bool
  ni_OnDownloadFailure :: bool
  ni_OnReleaseImport :: bool
  ni_OnHealthIssue :: bool
  ni_OnApplicationUpdate :: bool
  ni_IncludeHealthWarnings :: bool
  ni_ConfigContract :: string
  ni_Implementation :: string
  ni_ID :: int64
  ni_Name :: string
  ni_Tags :: "int list"
  ni_Fields :: "Field list"

record NotificationOutput =
  no_OnGrab :: bool
  no_OnImportFailure :: bool
  no_OnUpgrade :: bool
  no_OnDownloadFailure :: bool
  no_OnReleaseImport :: bool
  no_OnHealthIssue :: bool
  no_OnApplicationUpdate :: bool
  no_IncludeHealthWarnings :: bool
  no_ID :: int64
  no_Name :: string
  no_Tags :: "int list"
  no_Fields :: "Field list"

section \<open>Collaborators that are not among the sources\<close>

text \<open>
  The generic record's own methods (\<^verbatim>\<open>write\<close>, \<^verbatim>\<open>writeFields\<close>,
  \<^verbatim>\<open>readFields\<close>) and the framework's conversions between a set attribute and a Go
  slice (\<^verbatim>\<open>tfsdk.ValueAs\<close>, \<^verbatim>\<open>types.SetValueFrom\<close>) are called by the adapters but
  are not among the sources. They are parameters of the model, collected in one record;
  every statement below holds for all of them. The newest revision hands the generic
  methods a diagnostics collection they may append to: \<open>write_diags\<close> and
  \<open>read_diags\<close> are what they append.
\<close>

record Deps =
  ValueAs_int32 :: "types_Int64Set \<Rightarrow> int32 option list"
  ValueAs_int :: "types_Int64Set \<Rightarrow> int list"
  SetValueFrom_int32 :: "int32 option list \<Rightarrow> types_Int64Set"
  SetValueFrom_int :: "int list \<Rightarrow> types_Int64Set"
  readFields :: "Notification \<Rightarrow> Field list"
  writeFields :: "Notification \<Rightarrow> Field list \<Rightarrow> Notification"
  Notification_write :: "Notification \<Rightarrow> NotificationResource \<Rightarrow> Notification"
  Notification_write_starr :: "Notification \<Rightarrow> NotificationOutput \<Rightarrow> Notification"
  write_diags :: "Notification \<Rightarrow> NotificationResource \<Rightarrow> Diagnostics"
  read_diags :: "Notification \<Rightarrow> Diagnostics"

text \<open>
  Modelled from the spec: the generic \<^verbatim>\<open>Notification.read\<close>, which the custom script
  and gotify adapters call on the result of \<^verbatim>\<open>toNotification\<close>, is not among the
  sources. By the spec an adapter's \<^verbatim>\<open>read\<close> is the projection into the generic record
  followed by the encoding of that record: the wire record carries the identity
  attributes of the generic record (\<^verbatim>\<open>ID\<close>, \<^verbatim>\<open>Name\<close>, \<^verbatim>\<open>Tags\<close>,
  \<^verbatim>\<open>Implementation\<close>, \<^verbatim>\<open>ConfigContract\<close>), its event flags and the encoded field
  list. The shape follows the subsonic adapter's own \<^verbatim>\<open>read\<close>, with the identity pair
  read from the generic record.
\<close>

definition Notification_read :: "Deps \<Rightarrow> Notification \<Rightarrow> NotificationResource" where
  "Notification_read k n = NewNotificationResource \<lparr>
     nr_OnGrab := Some (ValueBool (OnGrab n)),
     nr_OnReleaseImport := Some (ValueBool (OnReleaseImport n)),
     nr_OnAlbumDelete := Some (ValueBool (OnAlbumDelete n)),
     nr_OnArtistDelete := Some (ValueBool (OnArtistDelete n)),
     nr_OnUpgrade := Some (ValueBool (OnUpgrade n)),
     nr_OnRename := Some (ValueBool (OnRename n)),
     nr_OnHealthIssue := Some (ValueBool (OnHealthIssue n)),
     nr_OnHealthRestored := Some (ValueBool (OnHealthRestored n)),
     nr_OnDownloadFailure := Some (ValueBool (OnDownloadFailure n)),
     nr_OnImportFailure := Some (ValueBool (OnImportFailure n)),
     nr_OnTrackRetag := Some (ValueBool (OnTrackRetag n)),
     nr_OnApplicationUpdate := Some (ValueBool (OnApplicationUpdate n)),
     nr_IncludeHealthWarnings := Some (ValueBool (IncludeHealthWarnings n)),
     nr_ConfigContract := Some (ValueString (ConfigContract n)),
     nr_Implementation := Some (ValueString (Implementation n)),
     nr_Id := Some (ucast (ValueInt64 (ID n))),
     nr_Name := Some (ValueString (Name n)),
     nr_Tags := ValueAs_int32 k (Tags n),
     nr_Fields := readFields k n \<rparr>"

section \<open>The adapters' read and write\<close>

subsection \<open>Custom script and gotify: through the generic record\<close>

definition write_cs ::
  "Deps \<Rightarrow> NotificationCustomScript
    \<Rightarrow> NotificationResource \<Rightarrow> NotificationCustomScript" where
  "write_cs k n notification =
     (let genericNotification = toNotification_cs n;
          genericNotification = Notification_write k genericNotification notification
      in fromNotification_cs n genericNotification)"

definition read_cs :: "Deps \<Rightarrow> NotificationCustomScript \<Rightarrow> NotificationResource" where
  "read_cs k n = Notification_read k (toNotification_cs n)"

text \<open>The gotify adapter also passes the diagnostics collection on; both functions
  return it with what the generic method appended.\<close>

definition write_go ::
  "Deps \<Rightarrow> NotificationGotify \<Rightarrow> NotificationResource \<Rightarrow> Diagnostics
    \<Rightarrow> NotificationGotify \<times> Diagnostics" where
  "write_go k n notification diags =
     (let genericNotification = toNotification_go n;
          diags = Append diags (write_diags k genericNotification notification);
          genericNotification = Notification_write k genericNotification notification
      in (fromNotification_go n genericNotification, diags))"

definition read_go ::
  "Deps \<Rightarrow> NotificationGotify
    \<Rightarrow> Diagnostics \<Rightarrow> NotificationResource \<times> Diagnostics" where
  "read_go k n diags =
     (Notification_read k (toNotification_go n),
      Append diags (read_diags k (toNotification_go n)))"

subsection \<open>Email: the older client\<close>

definition write_em ::
  "Deps \<Rightarrow> NotificationEmail
    \<Rightarrow> NotificationOutput \<Rightarrow> NotificationEmail" where
  "write_em k n notification =
     (let genericNotification = Notification_zero \<lparr>
            OnGrab := BoolValue (no_OnGrab notification),
            OnImportFailure := BoolValue (no_OnImportFailure notification),
            OnUpgrade := BoolValue (no_OnUpgrade notification),
            OnDownloadFailure := BoolValue (no_OnDownloadFailure notification),
            OnReleaseImport := BoolValue (no_OnReleaseImport notification),
            OnHealthIssue := BoolValue (no_OnHealthIssue notification),
            OnApplicationUpdate := BoolValue (no_OnApplicationUpdate notification),
            IncludeHealthWarnings := BoolValue (no_IncludeHealthWarnings notification),
            ID := Int64Value (no_ID notification),
            Name := StringValue (no_Name notification) \<rparr>;
          genericNotification =
            genericNotification \<lparr> Tags := SetValueFrom_int k (no_Tags notification) \<rparr>;
          genericNotification = writeFields k genericNotification (no_Fields notification)
      in fromNotification_em n genericNotification)"

definition read_em :: "Deps \<Rightarrow> NotificationEmail \<Rightarrow> NotificationInput" where
  "read_em k n =
     (let tags = ValueAs_int k (Tags_em n)
      in \<lparr> ni_OnGrab = ValueBool (OnGrab_em n),
           ni_OnImportFailure = ValueBool (OnImportFailure_em n),
           ni_OnUpgrade = ValueBool (OnUpgrade_em n),
           ni_OnDownloadFailure = ValueBool (OnDownloadFailure_em n),
           ni_OnReleaseImport = ValueBool (OnReleaseImport_em n),
           ni_OnHealthIssue = ValueBool (OnHealthIssue_em n),
           ni_OnApplicationUpdate = ValueBool (OnApplicationUpdate_em n),
           ni_IncludeHealthWarnings = ValueBool (IncludeHealthWarnings_em n),
           ni_ConfigContract = notificationEmailConfigContract,
           ni_Implementation = notificationEmailImplementation,
           ni_ID = ValueInt64 (ID_em n),
           ni_Name = ValueString (Name_em n),
           ni_Tags = tags,
           ni_Fields = readFields k (toNotification_em n) \<rparr>)"

subsection \<open>Subsonic\<close>

definition write_su ::
  "Deps \<Rightarrow> NotificationSubsonic
    \<Rightarrow> NotificationResource \<Rightarrow> NotificationSubsonic" where
  "write_su k n notification =
     (let genericNotification = Notification_zero \<lparr>
            OnGrab := BoolValue (GetBool (nr_OnGrab notification)),
            OnUpgrade := BoolValue (GetBool (nr_OnUpgrade notification)),
            OnRename := BoolValue (GetBool (nr_OnRename notification)),
            OnTrackRetag := BoolValue (GetBool (nr_OnTrackRetag notification)),
            OnReleaseImport := BoolValue (GetBool (nr_OnReleaseImport notification)),
            OnHealthIssue := BoolValue (GetBool (nr_OnHealthIssue notification)),
            IncludeHealthWarnings := BoolValue (GetBool (nr_IncludeHealthWarnings notification)),
            ID := Int64Value (scast (GetId notification)),
            Name := StringValue (GetString (nr_Name notification)) \<rparr>;
          genericNotification =
            genericNotification \<lparr> Tags := SetValueFrom_int32 k (nr_Tags notification) \<rparr>;
          genericNotification = writeFields k genericNotification (nr_Fields notification)
      in fromNotification_su n genericNotification)"

definition read_su :: "Deps \<Rightarrow> NotificationSubsonic \<Rightarrow> NotificationResource" where
  "read_su k n =
     (let tags = ValueAs_int32 k (Tags_su n);
          notification = NewNotificationResource;
          notification = notification \<lparr> nr_OnGrab := Some (ValueBool (OnGrab_su n)) \<rparr>;
          notification = notification \<lparr> nr_OnUpgrade := Some (ValueBool (OnUpgrade_su n)) \<rparr>;
          notification = notification \<lparr> nr_OnRename := Some (ValueBool (OnRename_su n)) \<rparr>;
          notification = notification \<lparr> nr_OnTrackRetag := Some (ValueBool (OnTrackRetag_su n)) \<rparr>;
          notification =
            notification \<lparr> nr_OnReleaseImport := Some (ValueBool (OnReleaseImport_su n)) \<rparr>;
          notification =
            notification \<lparr> nr_OnHealthIssue := Some (ValueBool (OnHealthIssue_su n)) \<rparr>;
          notification = notification
            \<lparr> nr_IncludeHealthWarnings := Some (ValueBool (IncludeHealthWarnings_su n)) \<rparr>;
          notification =
            notification \<lparr> nr_ConfigContract := Some notificationSubsonicConfigContract \<rparr>;
          notification =
            notification \<lparr> nr_Implementation := Some notificationSubsonicImplementation \<rparr>;
          notification = notification \<lparr> nr_Id := Some (ucast (ValueInt64 (ID_su n))) \<rparr>;
          notification = notification \<lparr> nr_Name := Some (ValueString (Name_su n)) \<rparr>;
          notification = notification \<lparr> nr_Tags := tags \<rparr>;
          notification =
            notification \<lparr> nr_Fields := readFields k (toNotification_su n) \<rparr>
      in notification)"

section \<open>Clients, requests and responses\<close>

text \<open>
  A client handle is the collection of remote operations the adapters call. Each
  operation returns the Go pair of a result and an error: \<open>Inl\<close> the error, \<open>Inr\<close> the
  result; a delete returns the error alone. The generated client's update takes the
  identifier as decimal text in one revision and as \<^verbatim>\<open>int32\<close> in the newest.
\<close>

record APIClient =
  CreateNotification :: "NotificationResource \<Rightarrow> error + NotificationResource"
  GetNotificationById :: "int32 \<Rightarrow> error + NotificationResource"
  UpdateNotification :: "string \<Rightarrow> NotificationResource \<Rightarrow> error + NotificationResource"
  UpdateNotification_id :: "int32 \<Rightarrow> NotificationResource \<Rightarrow> error + NotificationResource"
  DeleteNotification :: "int32 \<Rightarrow> error option"
  ListNotification :: "error + NotificationResource list"
  DeleteCustomFormat :: "int32 \<Rightarrow> error option"

record IndexerOutput =
  io_ID :: int64
  io_Name :: string
  io_Implementation :: string
  io_ConfigContract :: string

record Lidarr =
  AddNotificationContext :: "NotificationInput \<Rightarrow> error + NotificationOutput"
  GetNotificationContext :: "int \<Rightarrow> error + NotificationOutput"
  UpdateNotificationContext :: "NotificationInput \<Rightarrow> error + NotificationOutput"
  DeleteNotificationContext :: "int64 \<Rightarrow> error option"
  GetNotificationsContext :: "error + NotificationOutput list"
  GetIndexersContext :: "error + IndexerOutput list"

text \<open>The remote operations an adapter method issues, in order, with their arguments.\<close>

datatype api_call =
    Call_CreateNotification NotificationResource
  | Call_GetNotificationById int32
  | Call_UpdateNotification string NotificationResource
  | Call_UpdateNotification_id int32 NotificationResource
  | Call_DeleteNotification int32
  | Call_ListNotification
  | Call_DeleteCustomFormat int32
  | Call_AddNotificationContext NotificationInput
  | Call_GetNotificationContext int
  | Call_UpdateNotificationContext NotificationInput
  | Call_DeleteNotificationContext int64
  | Call_GetNotificationsContext
  | Call_GetIndexersContext

text \<open>
  What a request hands over (\<^verbatim>\<open>req.Plan\<close>, \<^verbatim>\<open>req.State\<close>, \<^verbatim>\<open>req.Config\<close>): decoding
  it with \<^verbatim>\<open>Get\<close> reports diagnostics and fills the typed record.
\<close>

record 'a tfsdk =
  Get_diags :: Diagnostics
  Get_value :: 'a

text \<open>
  The response an adapter method fills through its pointer: the diagnostics and the
  state (\<open>None\<close> once \<^verbatim>\<open>RemoveResource\<close> has run, or before any state is set).
  \<open>Calls\<close> is not a Go field: it records the remote operations issued so far.
  \<^verbatim>\<open>State.Set\<close> of a typed record is taken to report no diagnostics, and the
  \<^verbatim>\<open>tflog.Trace\<close> lines are left out. The methods dereference the client handle; a
  handle that was never set is outside the model of the lifecycle methods.
\<close>

record 'a Response =
  Diagnostics :: Diagnostics
  State :: "'a option"
  Calls :: "api_call list"

definition called :: "api_call \<Rightarrow> 'a Response \<Rightarrow> 'a Response" where
  "called c resp = resp \<lparr> Calls := Calls resp @ [c] \<rparr>"

definition decoded :: "'b tfsdk \<Rightarrow> 'a Response \<Rightarrow> 'a Response" where
  "decoded src resp = resp \<lparr> Diagnostics := Append (Diagnostics resp) (Get_diags src) \<rparr>"

definition failed :: "Summary \<Rightarrow> Detail \<Rightarrow> 'a Response \<Rightarrow> 'a Response" where
  "failed s d resp = resp \<lparr> Diagnostics := AddError s d (Diagnostics resp) \<rparr>"

section \<open>The lifecycle methods\<close>

text \<open>
  Each method takes the part of the request it decodes and the response as the framework
  hands it over, and returns the response as the method leaves it. \<open>decoded\<close>,
  \<open>called\<close> and \<open>failed\<close> stand for \<^verbatim>\<open>resp.Diagnostics.Append(req.X.Get(...))\<close>,
  for issuing a remote operation, and for \<^verbatim>\<open>resp.Diagnostics.AddError\<close>.
\<close>

subsection \<open>Custom script\<close>

definition Create_cs ::
  "Deps \<Rightarrow> APIClient \<Rightarrow> NotificationCustomScript tfsdk
    \<Rightarrow> NotificationCustomScript Response \<Rightarrow> NotificationCustomScript Response" where
  "Create_cs k client Plan resp =
     (let notification = Get_value Plan;
          resp = decoded Plan resp
      in if HasError (Diagnostics resp) then resp
         else
           let request = read_cs k notification;
               resp = called (Call_CreateNotification request) resp
           in case CreateNotification client request of
                Inl err \<Rightarrow>
                  failed ClientError
                    (ParseClientError Create notificationCustomScriptResourceName err) resp
              | Inr response \<Rightarrow>
                  let notification = write_cs k notification response
                  in resp \<lparr> State := Some notification \<rparr>)"

definition Read_cs ::
  "Deps \<Rightarrow> APIClient \<Rightarrow> NotificationCustomScript tfsdk
    \<Rightarrow> NotificationCustomScript Response \<Rightarrow> NotificationCustomScript Response" where
  "Read_cs k client State' resp =
     (let notification = Get_value State';
          resp = decoded State' resp
      in if HasError (Diagnostics resp) then resp
         else
           let id = (ucast (ValueInt64 (ID_cs notification)) :: int32);
               resp = called (Call_GetNotificationById id) resp
           in case GetNotificationById client id of
                Inl err \<Rightarrow>
                  failed ClientError
                    (ParseClientError Read notificationCustomScriptResourceName err) resp
              | Inr response \<Rightarrow>
                  let notification = write_cs k notification response
                  in resp \<lparr> State := Some notification \<rparr>)"

definition Update_cs ::
  "Deps \<Rightarrow> APIClient \<Rightarrow> NotificationCustomScript tfsdk
    \<Rightarrow> NotificationCustomScript Response \<Rightarrow> NotificationCustomScript Response" where
  "Update_cs k client Plan resp =
     (let notification = Get_value Plan;
          resp = decoded Plan resp
      in if HasError (Diagnostics resp) then resp
         else
           let request = read_cs k notification;
               id = Itoa (sint (GetId request));
               resp = called (Call_UpdateNotification id request) resp
           in case UpdateNotification client id request of
                Inl err \<Rightarrow>
                  failed ClientError
                    (ParseClientError Update notificationCustomScriptResourceName err) resp
              | Inr response \<Rightarrow>
                  let notification = write_cs k notification response
                  in resp \<lparr> State := Some notification \<rparr>)"

definition Delete_cs ::
  "APIClient \<Rightarrow> NotificationCustomScript tfsdk
    \<Rightarrow> NotificationCustomScript Response \<Rightarrow> NotificationCustomScript Response" where
  "Delete_cs client State' resp =
     (let notification = Get_value State';
          resp = decoded State' resp
      in if HasError (Diagnostics resp) then resp
         else
           let id = (ucast (ValueInt64 (ID_cs notification)) :: int32);
               resp = called (Call_DeleteNotification id) resp
           in case DeleteNotification client id of
                Some err \<Rightarrow>
                  failed ClientError
                    (ParseClientError Read notificationCustomScriptResourceName err) resp
              | None \<Rightarrow> resp \<lparr> State := None \<rparr>)"

subsection \<open>Subsonic\<close>

definition Create_su ::
  "Deps \<Rightarrow> APIClient \<Rightarrow> NotificationSubsonic tfsdk
    \<Rightarrow> NotificationSubsonic Response \<Rightarrow> NotificationSubsonic Response" where
  "Create_su k client Plan resp =
     (let notification = Get_value Plan;
          resp = decoded Plan resp
      in if HasError (Diagnostics resp) then resp
         else
           let request = read_su k notification;
               resp = called (Call_CreateNotification request) resp
           in case CreateNotification client request of
                Inl err \<Rightarrow>
                  failed ClientError
                    (ParseClientError Create notificationSubsonicResourceName err) resp
              | Inr response \<Rightarrow>
                  let notification = write_su k notification response
                  in resp \<lparr> State := Some notification \<rparr>)"

definition Read_su ::
  "Deps \<Rightarrow> APIClient \<Rightarrow> NotificationSubsonic tfsdk
    \<Rightarrow> NotificationSubsonic Response \<Rightarrow> NotificationSubsonic Response" where
  "Read_su k client State' resp =
     (let notification = Get_value State';
          resp = decoded State' resp
      in if HasError (Diagnostics resp) then resp
         else
           let id = (ucast (ValueInt64 (ID_su notification)) :: int32);
               resp = called (Call_GetNotificationById id) resp
           in case GetNotificationById client id of
                Inl err \<Rightarrow>
                  failed ClientError
                    (ParseClientError Read notificationSubsonicResourceName err) resp
              | Inr response \<Rightarrow>
                  let notification = write_su k notification response
                  in resp \<lparr> State := Some notification \<rparr>)"

definition Update_su ::
  "Deps \<Rightarrow> APIClient \<Rightarrow> NotificationSubsonic tfsdk
    \<Rightarrow> NotificationSubsonic Response \<Rightarrow> NotificationSubsonic Response" where
  "Update_su k client Plan resp =
     (let notification = Get_value Plan;
          resp = decoded Plan resp
      in if HasError (Diagnostics resp) then resp
         else
           let request = read_su k notification;
               id = Itoa (sint (GetId request));
               resp = called (Call_UpdateNotification id request) resp
           in case UpdateNotification client id request of
                Inl err \<Rightarrow>
                  failed ClientError
                    (ParseClientError Update notificationSubsonicResourceName err) resp
              | Inr response \<Rightarrow>
                  let notification = write_su k notification response
                  in resp \<lparr> State := Some notification \<rparr>)"

definition Delete_su ::
  "APIClient \<Rightarrow> NotificationSubsonic tfsdk
    \<Rightarrow> NotificationSubsonic Response \<Rightarrow> NotificationSubsonic Response" where
  "Delete_su client State' resp =
     (let notification = Get_value State';
          resp = decoded State' resp
      in if HasError (Diagnostics resp) then resp
         else
           let id = (ucast (ValueInt64 (ID_su notification)) :: int32);
               resp = called (Call_DeleteNotification id) resp
           in case DeleteNotification client id of
                Some err \<Rightarrow>
                  failed ClientError
                    (ParseClientError Read notificationSubsonicResourceName err) resp
              | None \<Rightarrow> resp \<lparr> State := None \<rparr>)"

subsection \<open>Gotify\<close>

text \<open>\<^verbatim>\<open>Delete\<close> decodes only the \<^verbatim>\<open>id\<close> attribute of the prior state, with
  \<^verbatim>\<open>GetAttribute\<close>; \<open>State_id\<close> is that attribute's decoding.\<close>

definition Create_go ::
  "Deps \<Rightarrow> APIClient \<Rightarrow> NotificationGotify tfsdk \<Rightarrow> NotificationGotify Response
    \<Rightarrow> NotificationGotify Response" where
  "Create_go k client Plan resp =
     (let notification = Get_value Plan;
          resp = decoded Plan resp
      in if HasError (Diagnostics resp) then resp
         else
           let (request, diags) = read_go k notification (Diagnostics resp);
               resp = resp \<lparr> Diagnostics := diags \<rparr>;
               resp = called (Call_CreateNotification request) resp
           in case CreateNotification client request of
                Inl err \<Rightarrow>
                  failed ClientError
                    (ParseClientError Create notificationGotifyResourceName err) resp
              | Inr response \<Rightarrow>
                  let (notification, diags) = write_go k notification response (Diagnostics resp)
                  in resp \<lparr> Diagnostics := diags, State := Some notification \<rparr>)"

definition Read_go ::
  "Deps \<Rightarrow> APIClient \<Rightarrow> NotificationGotify tfsdk \<Rightarrow> NotificationGotify Response
    \<Rightarrow> NotificationGotify Response" where
  "Read_go k client State' resp =
     (let notification = Get_value State';
          resp = decoded State' resp
      in if HasError (Diagnostics resp) then resp
         else
           let id = (ucast (ValueInt64 (ID_go notification)) :: int32);
               resp = called (Call_GetNotificationById id) resp
           in case GetNotificationById client id of
                Inl err \<Rightarrow>
                  failed ClientError
                    (ParseClientError Read notificationGotifyResourceName err) resp
              | Inr response \<Rightarrow>
                  let (notification, diags) = write_go k notification response (Diagnostics resp)
                  in resp \<lparr> Diagnostics := diags, State := Some notification \<rparr>)"

definition Update_go ::
  "Deps \<Rightarrow> APIClient \<Rightarrow> NotificationGotify tfsdk \<Rightarrow> NotificationGotify Response
    \<Rightarrow> NotificationGotify Response" where
  "Update_go k client Plan resp =
     (let notification = Get_value Plan;
          resp = decoded Plan resp
      in if HasError (Diagnostics resp) then resp
         else
           let (request, diags) = read_go k notification (Diagnostics resp);
               resp = resp \<lparr> Diagnostics := diags \<rparr>;
               resp = called (Call_UpdateNotification_id (GetId request) request) resp
           in case UpdateNotification_id client (GetId request) request of
                Inl err \<Rightarrow>
                  failed ClientError
                    (ParseClientError Update notificationGotifyResourceName err) resp
              | Inr response \<Rightarrow>
                  let (notification, diags) = write_go k notification response (Diagnostics resp)
                  in resp \<lparr> Diagnostics := diags, State := Some notification \<rparr>)"

definition Delete_go ::
  "APIClient \<Rightarrow> int64 tfsdk
    \<Rightarrow> NotificationGotify Response \<Rightarrow> NotificationGotify Response" where
  "Delete_go client State_id resp =
     (let ID' = Get_value State_id;
          resp = decoded State_id resp
      in if HasError (Diagnostics resp) then resp
         else
           let resp = called (Call_DeleteNotification (ucast ID')) resp
           in case DeleteNotification client (ucast ID') of
                Some err \<Rightarrow>
                  failed ClientError
                    (ParseClientError Delete notificationGotifyResourceName err) resp
              | None \<Rightarrow> resp \<lparr> State := None \<rparr>)"

subsection \<open>Email\<close>

definition Create_em ::
  "Deps \<Rightarrow> Lidarr \<Rightarrow> NotificationEmail tfsdk \<Rightarrow> NotificationEmail Response
    \<Rightarrow> NotificationEmail Response" where
  "Create_em k client Plan resp =
     (let notification = Get_value Plan;
          resp = decoded Plan resp
      in if HasError (Diagnostics resp) then resp
         else
           let request = read_em k notification;
               resp = called (Call_AddNotificationContext request) resp
           in case AddNotificationContext client request of
                Inl err \<Rightarrow>
                  failed ClientError
                    (Sprintf ''Unable to create %s, got error: %s''
                       [S notificationEmailResourceName, E err]) resp
              | Inr response \<Rightarrow>
                  let notification = write_em k notification response
                  in resp \<lparr> State := Some notification \<rparr>)"

definition Read_em ::
  "Deps \<Rightarrow> Lidarr \<Rightarrow> NotificationEmail tfsdk \<Rightarrow> NotificationEmail Response
    \<Rightarrow> NotificationEmail Response" where
  "Read_em k client State' resp =
     (let notification = Get_value State';
          resp = decoded State' resp
      in if HasError (Diagnostics resp) then resp
         else
           let id = sint (ValueInt64 (ID_em notification));
               resp = called (Call_GetNotificationContext id) resp
           in case GetNotificationContext client id of
                Inl err \<Rightarrow>
                  failed ClientError
                    (Sprintf ''Unable to read %s, got error: %s''
                       [S notificationEmailResourceName, E err]) resp
              | Inr response \<Rightarrow>
                  let notification = write_em k notification response
                  in resp \<lparr> State := Some notification \<rparr>)"

definition Update_em ::
  "Deps \<Rightarrow> Lidarr \<Rightarrow> NotificationEmail tfsdk \<Rightarrow> NotificationEmail Response
    \<Rightarrow> NotificationEmail Response" where
  "Update_em k client Plan resp =
     (let notification = Get_value Plan;
          resp = decoded Plan resp
      in if HasError (Diagnostics resp) then resp
         else
           let request = read_em k notification;
               resp = called (Call_UpdateNotificationContext request) resp
           in case UpdateNotificationContext client request of
                Inl err \<Rightarrow>
                  failed ClientError
                    (Sprintf ''Unable to update %s, got error: %s''
                       [S notificationEmailResourceName, E err]) resp
              | Inr response \<Rightarrow>
                  let notification = write_em k notification response
                  in resp \<lparr> State := Some notification \<rparr>)"

definition Delete_em ::
  "Lidarr \<Rightarrow> NotificationEmail tfsdk \<Rightarrow> NotificationEmail Response
    \<Rightarrow> NotificationEmail Response" where
  "Delete_em client State' resp =
     (let notification = Get_value State';
          resp = decoded State' resp
      in if HasError (Diagnostics resp) then resp
         else
           let id = ValueInt64 (ID_em notification);
               resp = called (Call_DeleteNotificationContext id) resp
           in case DeleteNotificationContext client id of
                Some err \<Rightarrow>
                  failed ClientError
                    (Sprintf ''Unable to read %s, got error: %s''
                       [S notificationEmailResourceName, E err]) resp
              | None \<Rightarrow> resp \<lparr> State := None \<rparr>)"

subsection \<open>Custom format\<close>

text \<open>Only \<^verbatim>\<open>Delete\<close> is embedded: the other methods go through the conversion of the
  specifications, which is not among the sources. The type of a specification is a
  parameter.\<close>

definition customFormatResourceName :: string where
  "customFormatResourceName = ''custom_format''"

record 'c CustomFormat =
  Specifications_cf :: "'c list Value"
  Name_cf :: types_String
  ID_cf :: types_Int64
  IncludeCustomFormatWhenRenaming_cf :: types_Bool

definition Delete_cf ::
  "APIClient \<Rightarrow> 'c CustomFormat tfsdk \<Rightarrow> 'c CustomFormat Response
    \<Rightarrow> 'c CustomFormat Response" where
  "Delete_cf client' State' resp =
     (let client = Get_value State';
          resp = decoded State' resp
      in if HasError (Diagnostics resp) then resp
         else
           let id = (ucast (ValueInt64 (ID_cf client)) :: int32);
               resp = called (Call_DeleteCustomFormat id) resp
           in case DeleteCustomFormat client' id of
                Some err \<Rightarrow>
                  failed ClientError (ParseClientError Read customFormatResourceName err) resp
              | None \<Rightarrow> resp \<lparr> State := None \<rparr>)"

section \<open>Import\<close>

text \<open>
  The email resource parses the import identifier itself. \<^verbatim>\<open>State.SetAttribute\<close> on
  the \<^verbatim>\<open>id\<close> path stores the parsed number in the \<^verbatim>\<open>id\<close> attribute of the
  state, which starts out with every attribute null.
\<close>

definition NotificationEmail_zero :: NotificationEmail where
  "NotificationEmail_zero = \<lparr>
     Tags_em = Null, To_em = Null, Cc_em = Null, Bcc_em = Null, From_em = Null,
     Server_em = Null, Name_em = Null, Username_em = Null, Password_em = Null,
     ID_em = Null, Port_em = Null, RequireEncryption_em = Null, OnGrab_em = Null,
     OnReleaseImport_em = Null, IncludeHealthWarnings_em = Null,
     OnApplicationUpdate_em = Null, OnHealthIssue_em = Null, OnDownloadFailure_em = Null,
     OnUpgrade_em = Null, OnImportFailure_em = Null \<rparr>"

definition SetAttribute_id :: "int \<Rightarrow> NotificationEmail option \<Rightarrow> NotificationEmail option" where
  "SetAttribute_id id' st =
     Some ((case st of None \<Rightarrow> NotificationEmail_zero | Some n \<Rightarrow> n)
             \<lparr> ID_em := Int64Value (word_of_int id') \<rparr>)"

definition ImportState_em ::
  "string \<Rightarrow> NotificationEmail Response \<Rightarrow> NotificationEmail Response" where
  "ImportState_em req_ID resp =
     (case Atoi req_ID of
        Inl err \<Rightarrow>
          failed UnexpectedImportIdentifier
            (Sprintf ''Expected import identifier with format: ID. Got: %q'' [S req_ID]) resp
      | Inr id' \<Rightarrow> resp \<lparr> State := SetAttribute_id id' (State resp) \<rparr>)"

section \<open>The notifications list data source\<close>

text \<open>
  Both revisions of the data source are embedded: the one on the generated client and
  the older one. \<^verbatim>\<open>tfsdk.ValueFrom\<close> turns the slice of generic records into the set
  attribute; the set is kept as the list of its elements.
\<close>

definition notificationsDataSourceName :: string where
  "notificationsDataSourceName = ''notifications''"

record Notifications =
  Notifications_ds :: "Notification list Value"
  ID_ds :: types_String

definition Read_ds ::
  "Deps \<Rightarrow> APIClient \<Rightarrow> Notifications tfsdk \<Rightarrow> Notifications Response
    \<Rightarrow> Notifications Response" where
  "Read_ds k client Config resp =
     (let data = Get_value Config;
          resp = decoded Config resp
      in if HasError (Diagnostics resp) then resp
         else
           let resp = called Call_ListNotification resp
           in case ListNotification client of
                Inl err \<Rightarrow>
                  failed ClientError (ParseClientError Read notificationsDataSourceName err) resp
              | Inr response \<Rightarrow>
                  let profiles = map (\<lambda>p. Notification_write k Notification_zero p) response;
                      data = data \<lparr> Notifications_ds := Known profiles \<rparr>;
                      data = data \<lparr> ID_ds := StringValue (Itoa (int (length response))) \<rparr>
                  in resp \<lparr> State := Some data \<rparr>)"

definition Read_ds_starr ::
  "Deps \<Rightarrow> Lidarr \<Rightarrow> Notifications tfsdk \<Rightarrow> Notifications Response
    \<Rightarrow> Notifications Response" where
  "Read_ds_starr k client Config resp =
     (let data = Get_value Config;
          resp = decoded Config resp
      in if HasError (Diagnostics resp) then resp
         else
           let resp = called Call_GetNotificationsContext resp
           in case GetNotificationsContext client of
                Inl err \<Rightarrow>
                  failed ClientError
                    (Sprintf ''Unable to read %s, got error: %s''
                       [S notificationsDataSourceName, E err]) resp
              | Inr response \<Rightarrow>
                  let profiles =
                        map (\<lambda>p. Notification_write_starr k Notification_zero p) response;
                      data = data \<lparr> Notifications_ds := Known profiles \<rparr>;
                      data = data \<lparr> ID_ds := StringValue (Itoa (int (length response))) \<rparr>
                  in resp \<lparr> State := Some data \<rparr>)"

section \<open>The gotify schema's value constraint\<close>






section \<open>Configure\<close>

text \<open>
  The provider data of a configure request is nil, a client handle, or a value of some
  other type (kept by the name of its type).
\<close>

datatype ProviderData = NilProviderData | LidarrHandle Lidarr | OtherProviderData string

record NotificationEmailResource =
  client_em :: "Lidarr option"

definition Configure_em ::
  "NotificationEmailResource \<Rightarrow> ProviderData \<Rightarrow> Diagnostics
    \<Rightarrow> NotificationEmailResource \<times> Diagnostics" where
  "Configure_em r req_ProviderData diags =
     (case req_ProviderData of
        NilProviderData \<Rightarrow> (r, diags)
      | OtherProviderData ty \<Rightarrow>
          (r, AddError UnexpectedResourceConfigureType
                (Sprintf ''Expected *lidarr.Lidarr, got: %T. Please report this issue to the provider developers.''
                   [T ty]) diags)
      | LidarrHandle client \<Rightarrow> (r \<lparr> client_em := Some client \<rparr>, diags))"

record IndexerDataSource =
  client_ix :: "Lidarr option"

definition Configure_ix ::
  "IndexerDataSource \<Rightarrow> ProviderData
    \<Rightarrow> Diagnostics \<Rightarrow> IndexerDataSource \<times> Diagnostics" where
  "Configure_ix d req_ProviderData diags =
     (case req_ProviderData of
        NilProviderData \<Rightarrow> (d, diags)
      | OtherProviderData ty \<Rightarrow>
          (d, AddError UnexpectedDataSourceConfigureType
                (Sprintf ''Expected *lidarr.Lidarr, got: %T. Please report this issue to the provider developers.''
                   [T ty]) diags)
      | LidarrHandle client \<Rightarrow> (d \<lparr> client_ix := Some client \<rparr>, diags))"

section \<open>The single-indexer data source\<close>

definition indexerDataSourceName :: string where
  "indexerDataSourceName = ''indexer''"

fun findIndexer :: "string \<Rightarrow> IndexerOutput list \<Rightarrow> error + IndexerOutput" where
  "findIndexer name [] = Inl (ErrDataNotFoundError indexerDataSourceName ''name'' name)"
| "findIndexer name (i # indexers) =
     (if io_Name i = name then Inr i else findIndexer name indexers)"

text \<open>
  The typed \<^verbatim>\<open>Indexer\<close> record and its \<^verbatim>\<open>write\<close> are not among the sources: the
  record's type, its \<^verbatim>\<open>Name\<close> attribute and \<^verbatim>\<open>write\<close> are parameters. The method
  decodes the record from the response's own state.
\<close>

definition Read_ix ::
  "('ix \<Rightarrow> types_String) \<Rightarrow> ('ix \<Rightarrow> IndexerOutput \<Rightarrow> 'ix) \<Rightarrow> Lidarr \<Rightarrow> 'ix tfsdk
    \<Rightarrow> 'ix Response \<Rightarrow> 'ix Response" where
  "Read_ix Name' write' client State' resp =
     (let data = Get_value State';
          resp = decoded State' resp
      in if HasError (Diagnostics resp) then resp
         else
           let resp = called Call_GetIndexersContext resp
           in case GetIndexersContext client of
                Inl err \<Rightarrow>
                  failed ClientError
                    (Sprintf ''Unable to read %s, got error: %s''
                       [S indexerDataSourceName, E err]) resp
              | Inr response \<Rightarrow>
                  (case findIndexer (ValueString (Name' data)) response of
                     Inl err \<Rightarrow>
                       failed DataSourceError
                         (Sprintf ''Unable to find %s, got error: %s''
                            [S indexerDataSourceName, E err]) resp
                   | Inr indexer \<Rightarrow> resp \<lparr> State := Some (write' data indexer) \<rparr>))"

section \<open>The identity pair of a request\<close>

text \<open>
  What a remote operation that carries a notification says about the variant: the
  \<^verbatim>\<open>implementation\<close> and \<^verbatim>\<open>config_contract\<close> members of the request body. The
  other operations carry no body.
\<close>

fun identity_pair :: "api_call \<Rightarrow> (string \<times> string) option" where
  "identity_pair (Call_CreateNotification r) =
     Some (GetString (nr_Implementation r), GetString (nr_ConfigContract r))"
| "identity_pair (Call_UpdateNotification _ r) =
     Some (GetString (nr_Implementation r), GetString (nr_ConfigContract r))"
| "identity_pair (Call_UpdateNotification_id _ r) =
     Some (GetString (nr_Implementation r), GetString (nr_ConfigContract r))"
| "identity_pair (Call_AddNotificationContext r) =
     Some (ni_Implementation r, ni_ConfigContract r)"
| "identity_pair (Call_UpdateNotificationContext r) =
     Some (ni_Implementation r, ni_ConfigContract r)"
| "identity_pair _ = None"

section \<open>Concrete inputs\<close>

text \<open>
  The inputs at which the statements below are evaluated: one stored record of each
  kind, all with identifier 7; instances of the collaborators; and client handles whose
  server has removed the record (every operation on an identifier answers not-found),
  whose connection fails, and whose server answers.
\<close>

definition cs7 :: NotificationCustomScript where
  "cs7 = \<lparr>
     Tags_cs = Known [Known 1],
     Arguments_cs = Null,
     Path_cs = Known ''/bin/notify'',
     Name_cs = Known ''script'',
     ID_cs = Known 7,
     OnGrab_cs = Known True,
     OnReleaseImport_cs = Known False,
     OnUpgrade_cs = Known False,
     OnRename_cs = Known False,
     OnHealthIssue_cs = Known True,
     OnHealthRestored_cs = Known False,
     OnDownloadFailure_cs = Known False,
     OnImportFailure_cs = Known False,
     OnTrackRetag_cs = Known False,
     IncludeHealthWarnings_cs = Known False,
     OnApplicationUpdate_cs = Known False \<rparr>"

definition go7 :: NotificationGotify where
  "go7 = \<lparr>
     Tags_go = Known [],
     Server_go = Known ''http://gotify'',
     Name_go = Known ''push'',
     AppToken_go = Known ''token'',
     Priority_go = Known 5,
     ID_go = Known 7,
     OnGrab_go = Known True,
     OnReleaseImport_go = Known False,
     OnAlbumDelete_go = Known False,
     OnArtistDelete_go = Known False,
     IncludeHealthWarnings_go = Known False,
     OnApplicationUpdate_go = Known False,
     OnHealthIssue_go = Known False,
     OnHealthRestored_go = Known False,
     OnDownloadFailure_go = Known False,
     OnUpgrade_go = Known True,
     OnImportFailure_go = Known False \<rparr>"

definition em7 :: NotificationEmail where
  "em7 = \<lparr>
     Tags_em = Known [],
     To_em = Known [Known ''ops@example.org''],
     Cc_em = Null,
     Bcc_em = Null,
     From_em = Known ''lidarr@example.org'',
     Server_em = Known ''smtp'',
     Name_em = Known ''mail'',
     Username_em = Null,
     Password_em = Null,
     ID_em = Known 7,
     Port_em = Known 25,
     RequireEncryption_em = Known False,
     OnGrab_em = Known True,
     OnReleaseImport_em = Known False,
     IncludeHealthWarnings_em = Known False,
     OnApplicationUpdate_em = Known False,
     OnHealthIssue_em = Known False,
     OnDownloadFailure_em = Known False,
     OnUpgrade_em = Known False,
     OnImportFailure_em = Known False \<rparr>"

definition su7 :: NotificationSubsonic where
  "su7 = \<lparr>
     Tags_su = Known [],
     Host_su = Known ''example'',
     Name_su = Known ''test'',
     Username_su = Null,
     Password_su = Null,
     URLBase_su = Null,
     Port_su = Known 9091,
     ID_su = Known 7,
     OnGrab_su = Known False,
     UseSSL_su = Known True,
     Notify_su = Null,
     UpdateLibrary_su = Null,
     OnReleaseImport_su = Known False,
     OnTrackRetag_su = Known False,
     OnRename_su = Known False,
     IncludeHealthWarnings_su = Known False,
     OnHealthIssue_su = Known False,
     OnUpgrade_su = Known False \<rparr>"

definition cf7 :: "unit CustomFormat" where
  "cf7 = \<lparr> Specifications_cf = Known [], Name_cf = Known ''format'', ID_cf = Known 7,
           IncludeCustomFormatWhenRenaming_cf = Known False \<rparr>"

text \<open>A request part that decodes without diagnostics, and the response as the
  framework hands it over: no diagnostics, the given state, no remote operation yet.\<close>

definition clean :: "'a \<Rightarrow> 'a tfsdk" where
  "clean v = \<lparr> Get_diags = [], Get_value = v \<rparr>"

definition fresh :: "'a option \<Rightarrow> 'a Response" where
  "fresh st = \<lparr> Diagnostics = [], State = st, Calls = [] \<rparr>"

definition deps_example :: Deps where
  "deps_example = \<lparr>
     ValueAs_int32 = (\<lambda>_. []),
     ValueAs_int = (\<lambda>_. []),
     SetValueFrom_int32 = (\<lambda>_. Known []),
     SetValueFrom_int = (\<lambda>_. Known []),
     readFields = (\<lambda>_. []),
     writeFields = (\<lambda>n _. n),
     Notification_write = (\<lambda>n r. n \<lparr> ID := Int64Value (scast (GetId r)),
                                      Name := StringValue (GetString (nr_Name r)) \<rparr>),
     Notification_write_starr = (\<lambda>n r. n \<lparr> ID := Int64Value (no_ID r),
                                            Name := StringValue (no_Name r) \<rparr>),
     write_diags = (\<lambda>_ _. []),
     read_diags = (\<lambda>_. []) \<rparr>"

definition client_gone :: APIClient where
  "client_gone = \<lparr>
     CreateNotification = (\<lambda>r. Inr (r \<lparr> nr_Id := Some 8 \<rparr>)),
     GetNotificationById = (\<lambda>_. Inl NotFound),
     UpdateNotification = (\<lambda>_ _. Inl NotFound),
     UpdateNotification_id = (\<lambda>_ _. Inl NotFound),
     DeleteNotification = (\<lambda>_. Some NotFound),
     ListNotification = Inr [],
     DeleteCustomFormat = (\<lambda>_. Some NotFound) \<rparr>"

definition client_down :: APIClient where
  "client_down = \<lparr>
     CreateNotification = (\<lambda>_. Inl (Failure ''connection refused'')),
     GetNotificationById = (\<lambda>_. Inl (Failure ''connection refused'')),
     UpdateNotification = (\<lambda>_ _. Inl (Failure ''connection refused'')),
     UpdateNotification_id = (\<lambda>_ _. Inl (Failure ''connection refused'')),
     DeleteNotification = (\<lambda>_. Some (Failure ''connection refused'')),
     ListNotification = Inl (Failure ''connection refused''),
     DeleteCustomFormat = (\<lambda>_. Some (Failure ''connection refused'')) \<rparr>"

definition stored :: "int32 \<Rightarrow> string \<Rightarrow> NotificationResource" where
  "stored i n = NewNotificationResource \<lparr> nr_Id := Some i, nr_Name := Some n \<rparr>"

definition client_up :: APIClient where
  "client_up = \<lparr>
     CreateNotification = (\<lambda>r. Inr (r \<lparr> nr_Id := Some 7 \<rparr>)),
     GetNotificationById = (\<lambda>i. Inr (stored i ''test'')),
     UpdateNotification = (\<lambda>_ r. Inr r),
     UpdateNotification_id = (\<lambda>_ r. Inr r),
     DeleteNotification = (\<lambda>_. None),
     ListNotification = Inr [stored 1 ''a'', stored 2 ''b'', stored 3 ''c''],
     DeleteCustomFormat = (\<lambda>_. None) \<rparr>"

definition received :: "int64 \<Rightarrow> string \<Rightarrow> NotificationOutput" where
  "received i n = \<lparr>
     no_OnGrab = False, no_OnImportFailure = False, no_OnUpgrade = False,
     no_OnDownloadFailure = False, no_OnReleaseImport = False, no_OnHealthIssue = False,
     no_OnApplicationUpdate = False, no_IncludeHealthWarnings = False,
     no_ID = i, no_Name = n, no_Tags = [], no_Fields = [] \<rparr>"

definition lidarr_gone :: Lidarr where
  "lidarr_gone = \<lparr>
     AddNotificationContext = (\<lambda>r. Inr (received 8 (ni_Name r))),
     GetNotificationContext = (\<lambda>_. Inl NotFound),
     UpdateNotificationContext = (\<lambda>_. Inl NotFound),
     DeleteNotificationContext = (\<lambda>_. Some NotFound),
     GetNotificationsContext = Inr [],
     GetIndexersContext = Inr [] \<rparr>"

definition lidarr_down :: Lidarr where
  "lidarr_down = \<lparr>
     AddNotificationContext = (\<lambda>_. Inl (Failure ''connection refused'')),
     GetNotificationContext = (\<lambda>_. Inl (Failure ''connection refused'')),
     UpdateNotificationContext = (\<lambda>_. Inl (Failure ''connection refused'')),
     DeleteNotificationContext = (\<lambda>_. Some (Failure ''connection refused'')),
     GetNotificationsContext = Inl (Failure ''connection refused''),
     GetIndexersContext = Inl (Failure ''connection refused'') \<rparr>"

definition indexer :: "int64 \<Rightarrow> string \<Rightarrow> IndexerOutput" where
  "indexer i n = \<lparr> io_ID = i, io_Name = n, io_Implementation = ''Newznab'',
                   io_ConfigContract = ''NewznabSettings'' \<rparr>"

definition lidarr_up :: Lidarr where
  "lidarr_up = \<lparr>
     AddNotificationContext = (\<lambda>r. Inr (received 7 (ni_Name r))),
     GetNotificationContext = (\<lambda>i. Inr (received (word_of_int i) ''mail'')),
     UpdateNotificationContext = (\<lambda>r. Inr (received (ni_ID r) (ni_Name r))),
     DeleteNotificationContext = (\<lambda>_. None),
     GetNotificationsContext = Inr [received 1 ''a'', received 2 ''b''],
     GetIndexersContext = Inr [indexer 1 ''foo'', indexer 2 ''Foo'', indexer 3 ''Foo''] \<rparr>"

section \<open>Projection identity\<close>

text \<open>
  Claim C1. For each of the four notification adapters (custom script, gotify, email,
  subsonic) and every typed record of that adapter, projecting the record into the generic
  notification record with \<^verbatim>\<open>toNotification\<close> and back with \<^verbatim>\<open>fromNotification\<close>
  gives the record itself, attribute for attribute, whatever the receiver held before.
\<close>

theorem projection_identity:
  "fromNotification_cs c0 (toNotification_cs c) = c
   \<and> fromNotification_go g0 (toNotification_go g) = g
   \<and> fromNotification_em e0 (toNotification_em e) = e
   \<and> fromNotification_su s0 (toNotification_su s) = s"
  by (simp add: fromNotification_cs_def toNotification_cs_def
      fromNotification_go_def toNotification_go_def
      fromNotification_em_def toNotification_em_def
      fromNotification_su_def toNotification_su_def Notification_zero_def)

section \<open>Diagnostics and responses: basic facts\<close>

lemma HasError_Append: "HasError (Append ds es) = (HasError ds \<or> HasError es)"
  by (induction es arbitrary: ds) (auto simp: HasError_def list_ex_iff)

lemma HasError_AddError: "HasError (AddError s d ds)"
  unfolding AddError_def HasError_Append by (simp add: HasError_def)

lemma State_failed: "State (failed s d resp) = State resp"
  by (simp add: failed_def)

lemma State_called: "State (called c resp) = State resp"
  by (simp add: called_def)

lemma State_decoded: "State (decoded src resp) = State resp"
  by (simp add: decoded_def)

lemma Diagnostics_failed: "Diagnostics (failed s d resp) = AddError s d (Diagnostics resp)"
  by (simp add: failed_def)

lemma Diagnostics_called: "Diagnostics (called c resp) = Diagnostics resp"
  by (simp add: called_def)

lemma Diagnostics_decoded:
  "Diagnostics (decoded src resp) = Append (Diagnostics resp) (Get_diags src)"
  by (simp add: decoded_def)

lemmas resp_simps = State_failed State_called State_decoded Diagnostics_failed
  Diagnostics_called

lemma clean_ok: "\<not> HasError (Diagnostics (decoded (clean v) (fresh st)))"
  by (simp add: decoded_def clean_def fresh_def HasError_def)

section \<open>Delete\<close>

text \<open>
  Every \<^verbatim>\<open>Delete\<close> has the same shape: decode the prior state, call the remote
  delete keyed by the identifier, and either add an error diagnostic and return, or remove
  the local state. No branch looks at what the remote error is.
\<close>

lemma Delete_cs_outcome:
  assumes "\<not> HasError (Diagnostics (decoded st resp))"
  shows "case DeleteNotification client (ucast (ValueInt64 (ID_cs (Get_value st)))) of
           Some err \<Rightarrow> HasError (Diagnostics (Delete_cs client st resp))
                        \<and> State (Delete_cs client st resp) = State resp
         | None \<Rightarrow> \<not> HasError (Diagnostics (Delete_cs client st resp))
                    \<and> State (Delete_cs client st resp) = None"
  using assms
  by (simp add: Delete_cs_def Let_def resp_simps HasError_AddError split: option.split)

lemma Delete_su_outcome:
  assumes "\<not> HasError (Diagnostics (decoded st resp))"
  shows "case DeleteNotification client (ucast (ValueInt64 (ID_su (Get_value st)))) of
           Some err \<Rightarrow> HasError (Diagnostics (Delete_su client st resp))
                        \<and> State (Delete_su client st resp) = State resp
         | None \<Rightarrow> \<not> HasError (Diagnostics (Delete_su client st resp))
                    \<and> State (Delete_su client st resp) = None"
  using assms
  by (simp add: Delete_su_def Let_def resp_simps HasError_AddError split: option.split)

lemma Delete_go_outcome:
  assumes "\<not> HasError (Diagnostics (decoded st resp))"
  shows "case DeleteNotification client (ucast (Get_value st)) of
           Some err \<Rightarrow> HasError (Diagnostics (Delete_go client st resp))
                        \<and> State (Delete_go client st resp) = State resp
         | None \<Rightarrow> \<not> HasError (Diagnostics (Delete_go client st resp))
                    \<and> State (Delete_go client st resp) = None"
  using assms
  by (simp add: Delete_go_def Let_def resp_simps HasError_AddError split: option.split)

lemma Delete_em_outcome:
  assumes "\<not> HasError (Diagnostics (decoded st resp))"
  shows "case DeleteNotificationContext client (ValueInt64 (ID_em (Get_value st))) of
           Some err \<Rightarrow> HasError (Diagnostics (Delete_em client st resp))
                        \<and> State (Delete_em client st resp) = State resp
         | None \<Rightarrow> \<not> HasError (Diagnostics (Delete_em client st resp))
                    \<and> State (Delete_em client st resp) = None"
  using assms
  by (simp add: Delete_em_def Let_def resp_simps HasError_AddError split: option.split)

lemma Delete_cf_outcome:
  assumes "\<not> HasError (Diagnostics (decoded st resp))"
  shows "case DeleteCustomFormat client (ucast (ValueInt64 (ID_cf (Get_value st)))) of
           Some err \<Rightarrow> HasError (Diagnostics (Delete_cf client st resp))
                        \<and> State (Delete_cf client st resp) = State resp
         | None \<Rightarrow> \<not> HasError (Diagnostics (Delete_cf client st resp))
                    \<and> State (Delete_cf client st resp) = None"
  using assms
  by (simp add: Delete_cf_def Let_def resp_simps HasError_AddError split: option.split)

text \<open>
  Claim C3, as stated: a \<^verbatim>\<open>Delete\<close> whose remote operation reports that the record is
  already gone reports success and removes the local state, so that deleting twice
  succeeds twice. It fails at the stored subsonic and gotify records with identifier 7.
  The first \<^verbatim>\<open>Delete\<close>, on a server that holds the record, succeeds; the next one
  meets a server that has removed it: the remote delete answers not-found, and
  \<^verbatim>\<open>Delete\<close> reports an error and keeps the state.
\<close>

theorem Delete_already_gone_counterexample:
  "State (Delete_su client_up (clean su7) (fresh (Some su7))) = None
   \<and> \<not> HasError (Diagnostics (Delete_su client_up (clean su7) (fresh (Some su7))))
   \<and> DeleteNotification client_gone 7 = Some NotFound
   \<and> HasError (Diagnostics (Delete_su client_gone (clean su7) (fresh (Some su7))))
   \<and> State (Delete_su client_gone (clean su7) (fresh (Some su7))) = Some su7
   \<and> HasError (Diagnostics (Delete_go client_gone (clean 7) (fresh (Some go7))))
   \<and> State (Delete_go client_gone (clean 7) (fresh (Some go7))) = Some go7"
  by (simp add: Delete_su_def Delete_go_def client_gone_def client_up_def clean_def fresh_def
      su7_def decoded_def called_def failed_def AddError_def HasError_def)

text \<open>
  Claim C3, amended. For the custom script, subsonic, gotify, email and custom format
  resources, once the prior state has decoded without error: when the remote delete
  returns an error, a not-found answer included, \<^verbatim>\<open>Delete\<close> reports an error
  diagnostic and leaves the local state as it was; when the remote delete returns no error,
  \<^verbatim>\<open>Delete\<close> reports no error and removes the local state.
\<close>

theorem Delete_keeps_state_on_remote_error:
  "(\<not> HasError (Diagnostics (decoded st_cs resp_cs)) \<longrightarrow>
      (case DeleteNotification client (ucast (ValueInt64 (ID_cs (Get_value st_cs)))) of
         Some err \<Rightarrow> HasError (Diagnostics (Delete_cs client st_cs resp_cs))
                      \<and> State (Delete_cs client st_cs resp_cs) = State resp_cs
       | None \<Rightarrow> \<not> HasError (Diagnostics (Delete_cs client st_cs resp_cs))
                  \<and> State (Delete_cs client st_cs resp_cs) = None))
   \<and> (\<not> HasError (Diagnostics (decoded st_su resp_su)) \<longrightarrow>
      (case DeleteNotification client (ucast (ValueInt64 (ID_su (Get_value st_su)))) of
         Some err \<Rightarrow> HasError (Diagnostics (Delete_su client st_su resp_su))
                      \<and> State (Delete_su client st_su resp_su) = State resp_su
       | None \<Rightarrow> \<not> HasError (Diagnostics (Delete_su client st_su resp_su))
                  \<and> State (Delete_su client st_su resp_su) = None))
   \<and> (\<not> HasError (Diagnostics (decoded st_go resp_go)) \<longrightarrow>
      (case DeleteNotification client (ucast (Get_value st_go)) of
         Some err \<Rightarrow> HasError (Diagnostics (Delete_go client st_go resp_go))
                      \<and> State (Delete_go client st_go resp_go) = State resp_go
       | None \<Rightarrow> \<not> HasError (Diagnostics (Delete_go client st_go resp_go))
                  \<and> State (Delete_go client st_go resp_go) = None))
   \<and> (\<not> HasError (Diagnostics (decoded st_em resp_em)) \<longrightarrow>
      (case DeleteNotificationContext lidarr (ValueInt64 (ID_em (Get_value st_em))) of
         Some err \<Rightarrow> HasError (Diagnostics (Delete_em lidarr st_em resp_em))
                      \<and> State (Delete_em lidarr st_em resp_em) = State resp_em
       | None \<Rightarrow> \<not> HasError (Diagnostics (Delete_em lidarr st_em resp_em))
                  \<and> State (Delete_em lidarr st_em resp_em) = None))
   \<and> (\<not> HasError (Diagnostics (decoded st_cf resp_cf)) \<longrightarrow>
      (case DeleteCustomFormat client (ucast (ValueInt64 (ID_cf (Get_value st_cf)))) of
         Some err \<Rightarrow> HasError (Diagnostics (Delete_cf client st_cf resp_cf))
                      \<and> State (Delete_cf client st_cf resp_cf) = State resp_cf
       | None \<Rightarrow> \<not> HasError (Diagnostics (Delete_cf client st_cf resp_cf))
                  \<and> State (Delete_cf client st_cf resp_cf) = None))"
  using Delete_cs_outcome Delete_su_outcome Delete_go_outcome Delete_em_outcome
    Delete_cf_outcome
  by blast

theorem Delete_keeps_state_on_remote_error_witness:
  "HasError (Diagnostics (Delete_cs client_gone (clean cs7) (fresh (Some cs7))))
   \<and> State (Delete_cs client_gone (clean cs7) (fresh (Some cs7))) = Some cs7
   \<and> HasError (Diagnostics (Delete_su client_gone (clean su7) (fresh (Some su7))))
   \<and> State (Delete_su client_gone (clean su7) (fresh (Some su7))) = Some su7
   \<and> HasError (Diagnostics (Delete_go client_gone (clean 7) (fresh (Some go7))))
   \<and> State (Delete_go client_gone (clean 7) (fresh (Some go7))) = Some go7
   \<and> HasError (Diagnostics (Delete_em lidarr_gone (clean em7) (fresh (Some em7))))
   \<and> State (Delete_em lidarr_gone (clean em7) (fresh (Some em7))) = Some em7
   \<and> HasError (Diagnostics (Delete_cf client_gone (clean cf7) (fresh (Some cf7))))
   \<and> State (Delete_cf client_gone (clean cf7) (fresh (Some cf7))) = Some cf7"
  using Delete_keeps_state_on_remote_error
    [of "clean cs7" "fresh (Some cs7)" client_gone "clean su7" "fresh (Some su7)"
        "clean 7" "fresh (Some go7)" "clean em7" "fresh (Some em7)" lidarr_gone
        "clean cf7" "fresh (Some cf7)"]
  by (simp add: clean_ok) (simp add: client_gone_def lidarr_gone_def fresh_def)

section \<open>The label of a failed operation\<close>

text \<open>
  Claim C4: a failed remote call is reported under the name of the operation that failed,
  and a failed \<^verbatim>\<open>Delete\<close> is never reported as a failed read. Evaluated on a
  connection that fails: the email, subsonic, custom script and custom format resources
  report the failed delete under the label of \<^verbatim>\<open>Read\<close> (the email resource in the
  text of its message, the others through \<^verbatim>\<open>helpers.Read\<close>), while the gotify
  resource reports it under \<^verbatim>\<open>helpers.Delete\<close>. The only remote operation the email
  resource issued is the delete.
\<close>

theorem Delete_failure_labelled_read:
  "Diagnostics (Delete_em lidarr_down (clean em7) (fresh (Some em7))) =
     [\<lparr> severity = SeverityError, summary = ClientError,
        detail = Sprintf ''Unable to read %s, got error: %s''
                   [S ''notification_email'', E (Failure ''connection refused'')] \<rparr>]
   \<and> Diagnostics (Delete_su client_down (clean su7) (fresh (Some su7))) =
     [\<lparr> severity = SeverityError, summary = ClientError,
        detail = ParseClientError Read ''notification_subsonic''
                   (Failure ''connection refused'') \<rparr>]
   \<and> Diagnostics (Delete_cs client_down (clean cs7) (fresh (Some cs7))) =
     [\<lparr> severity = SeverityError, summary = ClientError,
        detail = ParseClientError Read ''notification_custom_script''
                   (Failure ''connection refused'') \<rparr>]
   \<and> Diagnostics (Delete_cf client_down (clean cf7) (fresh (Some cf7))) =
     [\<lparr> severity = SeverityError, summary = ClientError,
        detail = ParseClientError Read ''custom_format'' (Failure ''connection refused'') \<rparr>]
   \<and> Diagnostics (Delete_go client_down (clean 7) (fresh (Some go7))) =
     [\<lparr> severity = SeverityError, summary = ClientError,
        detail = ParseClientError Delete ''notification_gotify''
                   (Failure ''connection refused'') \<rparr>]
   \<and> Calls (Delete_em lidarr_down (clean em7) (fresh (Some em7))) =
     [Call_DeleteNotificationContext 7]"
  by (simp add: Delete_em_def Delete_su_def Delete_cs_def Delete_cf_def Delete_go_def
      lidarr_down_def client_down_def clean_def fresh_def em7_def su7_def cs7_def cf7_def
      decoded_def called_def failed_def AddError_def HasError_def
      notificationEmailResourceName_def notificationSubsonicResourceName_def
      notificationCustomScriptResourceName_def customFormatResourceName_def
      notificationGotifyResourceName_def)

section \<open>Read\<close>

text \<open>
  A \<^verbatim>\<open>Read\<close> whose remote fetch fails adds one error diagnostic built from the error
  and returns; the state of the response is left as the framework handed it over.
\<close>

lemma Read_cs_error:
  assumes "\<not> HasError (Diagnostics (decoded st resp))"
    and "GetNotificationById client (ucast (ValueInt64 (ID_cs (Get_value st)))) = Inl err"
  shows "Diagnostics (Read_cs k client st resp) =
           AddError ClientError (ParseClientError Read notificationCustomScriptResourceName err)
             (Diagnostics (decoded st resp))
         \<and> State (Read_cs k client st resp) = State resp"
  using assms by (simp add: Read_cs_def Let_def resp_simps)

lemma Read_su_error:
  assumes "\<not> HasError (Diagnostics (decoded st resp))"
    and "GetNotificationById client (ucast (ValueInt64 (ID_su (Get_value st)))) = Inl err"
  shows "Diagnostics (Read_su k client st resp) =
           AddError ClientError (ParseClientError Read notificationSubsonicResourceName err)
             (Diagnostics (decoded st resp))
         \<and> State (Read_su k client st resp) = State resp"
  using assms by (simp add: Read_su_def Let_def resp_simps)

lemma Read_go_error:
  assumes "\<not> HasError (Diagnostics (decoded st resp))"
    and "GetNotificationById client (ucast (ValueInt64 (ID_go (Get_value st)))) = Inl err"
  shows "Diagnostics (Read_go k client st resp) =
           AddError ClientError (ParseClientError Read notificationGotifyResourceName err)
             (Diagnostics (decoded st resp))
         \<and> State (Read_go k client st resp) = State resp"
  using assms by (simp add: Read_go_def Let_def resp_simps)

lemma Read_em_error:
  assumes "\<not> HasError (Diagnostics (decoded st resp))"
    and "GetNotificationContext client (sint (ValueInt64 (ID_em (Get_value st)))) = Inl err"
  shows "Diagnostics (Read_em k client st resp) =
           AddError ClientError
             (Sprintf ''Unable to read %s, got error: %s''
                [S notificationEmailResourceName, E err])
             (Diagnostics (decoded st resp))
         \<and> State (Read_em k client st resp) = State resp"
  using assms by (simp add: Read_em_def Let_def resp_simps)

text \<open>
  Claim C5, as stated: a \<^verbatim>\<open>Read\<close> of an identifier the server no longer knows
  signals not-found apart from a generic transport error, so that the caller drops the
  local record instead of failing. It fails at the stored gotify and custom script records
  with identifier 7: on the server that has removed them \<^verbatim>\<open>Read\<close> reports an error
  diagnostic of the same severity and summary as on a failing connection, and the state
  is kept in both cases.
\<close>

theorem Read_not_found_counterexample:
  "GetNotificationById client_gone 7 = Inl NotFound
   \<and> Diagnostics (Read_go deps_example client_gone (clean go7) (fresh (Some go7))) =
       [\<lparr> severity = SeverityError, summary = ClientError,
          detail = ParseClientError Read ''notification_gotify'' NotFound \<rparr>]
   \<and> State (Read_go deps_example client_gone (clean go7) (fresh (Some go7))) = Some go7
   \<and> Diagnostics (Read_go deps_example client_down (clean go7) (fresh (Some go7))) =
       [\<lparr> severity = SeverityError, summary = ClientError,
          detail = ParseClientError Read ''notification_gotify''
                     (Failure ''connection refused'') \<rparr>]
   \<and> State (Read_go deps_example client_down (clean go7) (fresh (Some go7))) = Some go7
   \<and> Diagnostics (Read_cs deps_example client_gone (clean cs7) (fresh (Some cs7))) =
       [\<lparr> severity = SeverityError, summary = ClientError,
          detail = ParseClientError Read ''notification_custom_script'' NotFound \<rparr>]
   \<and> State (Read_cs deps_example client_gone (clean cs7) (fresh (Some cs7))) = Some cs7"
  by (simp add: Read_go_def Read_cs_def client_gone_def client_down_def clean_def fresh_def
      go7_def cs7_def decoded_def called_def failed_def AddError_def HasError_def
      notificationGotifyResourceName_def notificationCustomScriptResourceName_def)

text \<open>
  Claim C5, amended. For the custom script, gotify, subsonic and email resources, once
  the prior state has decoded without error: when the remote fetch returns an error, of
  whatever kind, \<^verbatim>\<open>Read\<close> adds a client-error diagnostic labelled with the read
  operation, the resource kind and that error, and leaves the state of the response
  unchanged. An identifier the server no longer knows is reported the same way, with the
  not-found error as the error text.
\<close>

theorem Read_reports_every_remote_error_alike:
  "(\<not> HasError (Diagnostics (decoded st_cs resp_cs))
      \<and> GetNotificationById client (ucast (ValueInt64 (ID_cs (Get_value st_cs)))) = Inl err
    \<longrightarrow> Diagnostics (Read_cs k client st_cs resp_cs) =
          AddError ClientError (ParseClientError Read notificationCustomScriptResourceName err)
            (Diagnostics (decoded st_cs resp_cs))
        \<and> State (Read_cs k client st_cs resp_cs) = State resp_cs)
   \<and> (\<not> HasError (Diagnostics (decoded st_go resp_go))
      \<and> GetNotificationById client (ucast (ValueInt64 (ID_go (Get_value st_go)))) = Inl err
    \<longrightarrow> Diagnostics (Read_go k client st_go resp_go) =
          AddError ClientError (ParseClientError Read notificationGotifyResourceName err)
            (Diagnostics (decoded st_go resp_go))
        \<and> State (Read_go k client st_go resp_go) = State resp_go)
   \<and> (\<not> HasError (Diagnostics (decoded st_su resp_su))
      \<and> GetNotificationById client (ucast (ValueInt64 (ID_su (Get_value st_su)))) = Inl err
    \<longrightarrow> Diagnostics (Read_su k client st_su resp_su) =
          AddError ClientError (ParseClientError Read notificationSubsonicResourceName err)
            (Diagnostics (decoded st_su resp_su))
        \<and> State (Read_su k client st_su resp_su) = State resp_su)
   \<and> (\<not> HasError (Diagnostics (decoded st_em resp_em))
      \<and> GetNotificationContext lidarr (sint (ValueInt64 (ID_em (Get_value st_em)))) = Inl err
    \<longrightarrow> Diagnostics (Read_em k lidarr st_em resp_em) =
          AddError ClientError
            (Sprintf ''Unable to read %s, got error: %s''
               [S notificationEmailResourceName, E err])
            (Diagnostics (decoded st_em resp_em))
        \<and> State (Read_em k lidarr st_em resp_em) = State resp_em)"
  using Read_cs_error Read_go_error Read_su_error Read_em_error
  by blast

theorem Read_reports_every_remote_error_alike_witness:
  "Diagnostics (Read_cs deps_example client_gone (clean cs7) (fresh (Some cs7))) =
     [\<lparr> severity = SeverityError, summary = ClientError,
        detail = ParseClientError Read ''notification_custom_script'' NotFound \<rparr>]
   \<and> State (Read_cs deps_example client_gone (clean cs7) (fresh (Some cs7))) = Some cs7
   \<and> Diagnostics (Read_go deps_example client_gone (clean go7) (fresh (Some go7))) =
     [\<lparr> severity = SeverityError, summary = ClientError,
        detail = ParseClientError Read ''notification_gotify'' NotFound \<rparr>]
   \<and> State (Read_go deps_example client_gone (clean go7) (fresh (Some go7))) = Some go7
   \<and> Diagnostics (Read_su deps_example client_gone (clean su7) (fresh (Some su7))) =
     [\<lparr> severity = SeverityError, summary = ClientError,
        detail = ParseClientError Read ''notification_subsonic'' NotFound \<rparr>]
   \<and> State (Read_su deps_example client_gone (clean su7) (fresh (Some su7))) = Some su7
   \<and> Diagnostics (Read_em deps_example lidarr_gone (clean em7) (fresh (Some em7))) =
     [\<lparr> severity = SeverityError, summary = ClientError,
        detail = Sprintf ''Unable to read %s, got error: %s''
                   [S ''notification_email'', E NotFound] \<rparr>]
   \<and> State (Read_em deps_example lidarr_gone (clean em7) (fresh (Some em7))) = Some em7"
  using Read_reports_every_remote_error_alike
    [of "clean cs7" "fresh (Some cs7)" client_gone NotFound deps_example
        "clean go7" "fresh (Some go7)" "clean su7" "fresh (Some su7)"
        "clean em7" "fresh (Some em7)" lidarr_gone]
  by (simp add: clean_ok)
     (simp add: client_gone_def lidarr_gone_def fresh_def clean_def decoded_def AddError_def
      notificationCustomScriptResourceName_def notificationGotifyResourceName_def
      notificationSubsonicResourceName_def notificationEmailResourceName_def)

section \<open>The identity pair on outgoing requests\<close>

text \<open>
  \<^verbatim>\<open>Create\<close> and \<^verbatim>\<open>Update\<close> issue one remote operation, unless decoding the plan
  reported an error, and its body is the adapter's \<^verbatim>\<open>read\<close> of the plan. The email
  and subsonic adapters write the pair into the request themselves; the custom script
  and gotify adapters write it into the generic record, from which the generic
  \<^verbatim>\<open>read\<close> takes it.
\<close>

lemma Calls_failed: "Calls (failed s d resp) = Calls resp"
  by (simp add: failed_def)

lemma Calls_called: "Calls (called c resp) = Calls resp @ [c]"
  by (simp add: called_def)

lemma Calls_decoded: "Calls (decoded src resp) = Calls resp"
  by (simp add: decoded_def)

lemmas calls_simps = Calls_failed Calls_called Calls_decoded Diagnostics_called

lemma read_cs_pair:
  "GetString (nr_Implementation (read_cs k n)) = notificationCustomScriptImplementation
   \<and> GetString (nr_ConfigContract (read_cs k n)) = notificationCustomScriptConfigContract"
  by (simp add: read_cs_def Notification_read_def toNotification_cs_def GetString_def
      StringValue_def)

lemma read_go_pair:
  "GetString (nr_Implementation (fst (read_go k n diags))) = notificationGotifyImplementation
   \<and> GetString (nr_ConfigContract (fst (read_go k n diags))) = notificationGotifyConfigContract"
  by (simp add: read_go_def Notification_read_def toNotification_go_def GetString_def
      StringValue_def)

lemma read_em_pair:
  "ni_Implementation (read_em k n) = notificationEmailImplementation
   \<and> ni_ConfigContract (read_em k n) = notificationEmailConfigContract"
  by (simp add: read_em_def Let_def)

lemma read_su_pair:
  "GetString (nr_Implementation (read_su k n)) = notificationSubsonicImplementation
   \<and> GetString (nr_ConfigContract (read_su k n)) = notificationSubsonicConfigContract"
  by (simp add: read_su_def Let_def GetString_def)

lemma Create_cs_calls:
  "map identity_pair (Calls (Create_cs k client Plan resp)) =
     map identity_pair (Calls resp) @
       (if HasError (Diagnostics (decoded Plan resp)) then []
        else [Some (notificationCustomScriptImplementation,
                    notificationCustomScriptConfigContract)])"
  by (simp add: Create_cs_def Let_def calls_simps read_cs_pair split: sum.split)

lemma Update_cs_calls:
  "map identity_pair (Calls (Update_cs k client Plan resp)) =
     map identity_pair (Calls resp) @
       (if HasError (Diagnostics (decoded Plan resp)) then []
        else [Some (notificationCustomScriptImplementation,
                    notificationCustomScriptConfigContract)])"
  by (simp add: Update_cs_def Let_def calls_simps read_cs_pair split: sum.split)

lemma Create_go_calls:
  "map identity_pair (Calls (Create_go k client Plan resp)) =
     map identity_pair (Calls resp) @
       (if HasError (Diagnostics (decoded Plan resp)) then []
        else [Some (notificationGotifyImplementation, notificationGotifyConfigContract)])"
  by (simp add: Create_go_def Let_def calls_simps read_go_pair split_beta split: sum.split)

lemma Update_go_calls:
  "map identity_pair (Calls (Update_go k client Plan resp)) =
     map identity_pair (Calls resp) @
       (if HasError (Diagnostics (decoded Plan resp)) then []
        else [Some (notificationGotifyImplementation, notificationGotifyConfigContract)])"
  by (simp add: Update_go_def Let_def calls_simps read_go_pair split_beta split: sum.split)

lemma Create_em_calls:
  "map identity_pair (Calls (Create_em k client Plan resp)) =
     map identity_pair (Calls resp) @
       (if HasError (Diagnostics (decoded Plan resp)) then []
        else [Some (notificationEmailImplementation, notificationEmailConfigContract)])"
  by (simp add: Create_em_def Let_def calls_simps read_em_pair split: sum.split)

lemma Update_em_calls:
  "map identity_pair (Calls (Update_em k client Plan resp)) =
     map identity_pair (Calls resp) @
       (if HasError (Diagnostics (decoded Plan resp)) then []
        else [Some (notificationEmailImplementation, notificationEmailConfigContract)])"
  by (simp add: Update_em_def Let_def calls_simps read_em_pair split: sum.split)

lemma Create_su_calls:
  "map identity_pair (Calls (Create_su k client Plan resp)) =
     map identity_pair (Calls resp) @
       (if HasError (Diagnostics (decoded Plan resp)) then []
        else [Some (notificationSubsonicImplementation, notificationSubsonicConfigContract)])"
  by (simp add: Create_su_def Let_def calls_simps read_su_pair split: sum.split)

lemma Update_su_calls:
  "map identity_pair (Calls (Update_su k client Plan resp)) =
     map identity_pair (Calls resp) @
       (if HasError (Diagnostics (decoded Plan resp)) then []
        else [Some (notificationSubsonicImplementation, notificationSubsonicConfigContract)])"
  by (simp add: Update_su_def Let_def calls_simps read_su_pair split: sum.split)

text \<open>
  Claim C2. For every \<^verbatim>\<open>Create\<close> and \<^verbatim>\<open>Update\<close> of a notification variant
  resource (custom script, gotify, email, subsonic), whatever the plan, the response so
  far, the client and the collaborators: the method issues exactly one remote operation
  when the plan decodes without error and none otherwise, and the \<^verbatim>\<open>implementation\<close>
  and \<^verbatim>\<open>config_contract\<close> of that request are the variant's constants:
  \<^verbatim>\<open>CustomScript\<close>/\<^verbatim>\<open>CustomScriptSettings\<close>, \<^verbatim>\<open>Gotify\<close>/\<^verbatim>\<open>GotifySettings\<close>,
  \<^verbatim>\<open>Email\<close>/\<^verbatim>\<open>EmailSettings\<close>, and for subsonic the pair its source file
  declares.
\<close>

theorem identity_pair_of_every_request:
  "map identity_pair (Calls (Create_cs k client Plan_cs resp_cs)) =
     map identity_pair (Calls resp_cs) @
       (if HasError (Diagnostics (decoded Plan_cs resp_cs)) then []
        else [Some (''CustomScript'', ''CustomScriptSettings'')])
   \<and> map identity_pair (Calls (Update_cs k client Plan_cs resp_cs)) =
     map identity_pair (Calls resp_cs) @
       (if HasError (Diagnostics (decoded Plan_cs resp_cs)) then []
        else [Some (''CustomScript'', ''CustomScriptSettings'')])
   \<and> map identity_pair (Calls (Create_go k client Plan_go resp_go)) =
     map identity_pair (Calls resp_go) @
       (if HasError (Diagnostics (decoded Plan_go resp_go)) then []
        else [Some (''Gotify'', ''GotifySettings'')])
   \<and> map identity_pair (Calls (Update_go k client Plan_go resp_go)) =
     map identity_pair (Calls resp_go) @
       (if HasError (Diagnostics (decoded Plan_go resp_go)) then []
        else [Some (''Gotify'', ''GotifySettings'')])
   \<and> map identity_pair (Calls (Create_em k lidarr Plan_em resp_em)) =
     map identity_pair (Calls resp_em) @
       (if HasError (Diagnostics (decoded Plan_em resp_em)) then []
        else [Some (''Email'', ''EmailSettings'')])
   \<and> map identity_pair (Calls (Update_em k lidarr Plan_em resp_em)) =
     map identity_pair (Calls resp_em) @
       (if HasError (Diagnostics (decoded Plan_em resp_em)) then []
        else [Some (''Email'', ''EmailSettings'')])
   \<and> map identity_pair (Calls (Create_su k client Plan_su resp_su)) =
     map identity_pair (Calls resp_su) @
       (if HasError (Diagnostics (decoded Plan_su resp_su)) then []
        else [Some (notificationSubsonicImplementation, notificationSubsonicConfigContract)])
   \<and> map identity_pair (Calls (Update_su k client Plan_su resp_su)) =
     map identity_pair (Calls resp_su) @
       (if HasError (Diagnostics (decoded Plan_su resp_su)) then []
        else [Some (notificationSubsonicImplementation, notificationSubsonicConfigContract)])"
  unfolding Create_cs_calls Update_cs_calls Create_go_calls Update_go_calls
    Create_em_calls Update_em_calls Create_su_calls Update_su_calls
  by (simp add: notificationCustomScriptImplementation_def
      notificationCustomScriptConfigContract_def notificationGotifyImplementation_def
      notificationGotifyConfigContract_def notificationEmailImplementation_def
      notificationEmailConfigContract_def)

section \<open>Decimal text: parsing and printing\<close>

text \<open>
  \<^verbatim>\<open>Atoi\<close> reads back what \<^verbatim>\<open>Itoa\<close> prints, for every number of the 64-bit range,
  and whatever \<^verbatim>\<open>Atoi\<close> returns lies in that range.
\<close>

declare Itoa_nat.simps [simp del]

lemma digit_val_digit_char: "d < 10 \<Longrightarrow> digit_val (digit_char d) = Some d"
proof -
  assume "d < 10"
  then consider "d = 0" | "d = 1" | "d = 2" | "d = 3" | "d = 4" | "d = 5" | "d = 6"
    | "d = 7" | "d = 8" | "d = 9"
    by atomize_elim arith
  then show ?thesis
    by cases (simp_all add: digit_val_def digit_char_def)
qed

lemma digit_char_not_sign:
  "d < 10 \<Longrightarrow> digit_char d \<noteq> CHR ''-'' \<and> digit_char d \<noteq> CHR ''+''"
proof -
  assume "d < 10"
  then consider "d = 0" | "d = 1" | "d = 2" | "d = 3" | "d = 4" | "d = 5" | "d = 6"
    | "d = 7" | "d = 8" | "d = 9"
    by atomize_elim arith
  then show ?thesis
    by cases (simp_all add: digit_char_def)
qed

lemma parse_digits_append:
  "parse_digits acc (xs @ ys) =
     (case parse_digits acc xs of None \<Rightarrow> None | Some a \<Rightarrow> parse_digits a ys)"
  by (induction xs arbitrary: acc) (simp_all split: option.split)

lemma parse_digits_Itoa_nat: "parse_digits 0 (Itoa_nat n) = Some n"
proof (induction n rule: Itoa_nat.induct)
  case (1 n)
  show ?case
  proof (cases "n < 10")
    case True
    then show ?thesis
      by (subst Itoa_nat.simps) (simp add: digit_val_digit_char)
  next
    case False
    with 1 have "parse_digits 0 (Itoa_nat (n div 10)) = Some (n div 10)" by simp
    with False show ?thesis
      by (subst Itoa_nat.simps) (simp add: parse_digits_append digit_val_digit_char)
  qed
qed

lemma Itoa_nat_head:
  "\<exists>c cs. Itoa_nat n = c # cs \<and> c \<noteq> CHR ''-'' \<and> c \<noteq> CHR ''+''"
proof (induction n rule: Itoa_nat.induct)
  case (1 n)
  show ?case
  proof (cases "n < 10")
    case True
    then show ?thesis
      by (subst Itoa_nat.simps) (simp add: digit_char_not_sign)
  next
    case False
    with 1 obtain c cs where "Itoa_nat (n div 10) = c # cs" "c \<noteq> CHR ''-''" "c \<noteq> CHR ''+''"
      by auto
    with False show ?thesis
      by (subst Itoa_nat.simps) simp
  qed
qed

lemma Atoi_Itoa_nat:
  assumes "n < 2 ^ 63"
  shows "Atoi (Itoa_nat n) = Inr (int n)"
proof -
  obtain c cs where h: "Itoa_nat n = c # cs" "c \<noteq> CHR ''-''" "c \<noteq> CHR ''+''"
    using Itoa_nat_head by blast
  then have "Atoi (Itoa_nat n) = Atoi_unsigned False (Itoa_nat n)"
    by simp
  also have "\<dots> = Inr (int n)"
  proof -
    from h(1) have "Itoa_nat n \<noteq> []" by simp
    with assms show ?thesis
      by (simp add: Atoi_unsigned_def parse_digits_Itoa_nat)
  qed
  finally show ?thesis .
qed

lemma Atoi_Itoa:
  assumes "- (2 ^ 63) \<le> i" and "i < 2 ^ 63"
  shows "Atoi (Itoa i) = Inr i"
proof (cases "i < 0")
  case False
  with assms have "nat i < 2 ^ 63" by (simp add: nat_less_iff)
  with False show ?thesis
    by (simp add: Itoa_def Atoi_Itoa_nat)
next
  case True
  obtain c cs where h: "Itoa_nat (nat (- i)) = c # cs"
    using Itoa_nat_head by blast
  from assms True have le: "nat (- i) \<le> 2 ^ 63" by (simp add: nat_le_iff)
  have "Atoi (Itoa i) = Atoi_unsigned True (Itoa_nat (nat (- i)))"
    using True by (simp add: Itoa_def)
  also have "\<dots> = Inr i"
  proof -
    from h have "Itoa_nat (nat (- i)) \<noteq> []" by simp
    with le True show ?thesis
      by (simp add: Atoi_unsigned_def parse_digits_Itoa_nat)
  qed
  finally show ?thesis .
qed

lemma Atoi_unsigned_range:
  "Atoi_unsigned neg ds = Inr i \<Longrightarrow> - (2 ^ 63) \<le> i \<and> i < 2 ^ 63"
  by (auto simp: Atoi_unsigned_def split: if_splits option.splits)

lemma Atoi_range: "Atoi s = Inr i \<Longrightarrow> - (2 ^ 63) \<le> i \<and> i < 2 ^ 63"
  by (cases s) (auto dest: Atoi_unsigned_range split: if_splits)

lemma sint_of_Atoi:
  assumes "Atoi s = Inr i"
  shows "sint (word_of_int i :: int64) = i"
proof -
  from assms have "- (2 ^ 63) \<le> i \<and> i < 2 ^ 63" by (rule Atoi_range)
  then show ?thesis
    by (simp add: sint_sbintrunc' signed_take_bit_int_eq_self)
qed

lemma Atoi_examples:
  "Atoi ''42'' = Inr 42"
  "Atoi ''-12'' = Inr (- 12)"
  "Atoi ''+12'' = Inr 12"
  "Atoi ''not-a-number'' = Inl ErrSyntax"
  "Atoi [] = Inl ErrSyntax"
  "Atoi '' 12'' = Inl ErrSyntax"
  "Atoi ''12a'' = Inl ErrSyntax"
  "Atoi ''9223372036854775807'' = Inr 9223372036854775807"
  "Atoi ''9223372036854775808'' = Inl ErrRange"
  by (simp_all add: Atoi_unsigned_def digit_val_def)

section \<open>Import\<close>

text \<open>
  Claim C6. \<^verbatim>\<open>ImportState\<close> of the email resource parses the identifier with
  \<^verbatim>\<open>strconv.Atoi\<close>. For every string that does not parse (a syntax or a range error),
  it adds the error diagnostic that names the expected format and quotes the input, leaves
  the state untouched and issues no remote operation. For every string that parses to
  \<open>i\<close>, it sets the \<^verbatim>\<open>id\<close> attribute of the state to \<open>i\<close> (which fits the
  attribute's 64 bits), adds no diagnostic and issues no remote operation.
\<close>

theorem ImportState_parses_or_rejects:
  "(Atoi req_ID = Inl e \<longrightarrow>
      Diagnostics (ImportState_em req_ID resp) =
        AddError UnexpectedImportIdentifier
          (Sprintf ''Expected import identifier with format: ID. Got: %q'' [S req_ID])
          (Diagnostics resp)
      \<and> HasError (Diagnostics (ImportState_em req_ID resp))
      \<and> State (ImportState_em req_ID resp) = State resp
      \<and> Calls (ImportState_em req_ID resp) = Calls resp)
   \<and> (Atoi req_ID = Inr i \<longrightarrow>
      (\<exists>n. State (ImportState_em req_ID resp) = Some n
           \<and> ID_em n = Int64Value (word_of_int i)
           \<and> sint (ValueInt64 (ID_em n)) = i)
      \<and> Diagnostics (ImportState_em req_ID resp) = Diagnostics resp
      \<and> Calls (ImportState_em req_ID resp) = Calls resp)"
proof (intro conjI impI)
  assume "Atoi req_ID = Inl e"
  then show "Diagnostics (ImportState_em req_ID resp) =
        AddError UnexpectedImportIdentifier
          (Sprintf ''Expected import identifier with format: ID. Got: %q'' [S req_ID])
          (Diagnostics resp)"
    and "HasError (Diagnostics (ImportState_em req_ID resp))"
    and "State (ImportState_em req_ID resp) = State resp"
    and "Calls (ImportState_em req_ID resp) = Calls resp"
    by (simp_all add: ImportState_em_def resp_simps Calls_failed HasError_AddError)
next
  assume a: "Atoi req_ID = Inr i"
  then have "sint (word_of_int i :: int64) = i" by (rule sint_of_Atoi)
  with a show "\<exists>n. State (ImportState_em req_ID resp) = Some n
           \<and> ID_em n = Int64Value (word_of_int i)
           \<and> sint (ValueInt64 (ID_em n)) = i"
    by (simp add: ImportState_em_def SetAttribute_id_def Int64Value_def)
  from a show "Diagnostics (ImportState_em req_ID resp) = Diagnostics resp"
    and "Calls (ImportState_em req_ID resp) = Calls resp"
    by (simp_all add: ImportState_em_def)
qed

theorem ImportState_parses_or_rejects_witness:
  "Atoi ''not-a-number'' = Inl ErrSyntax
   \<and> HasError (Diagnostics (ImportState_em ''not-a-number'' (fresh None)))
   \<and> State (ImportState_em ''not-a-number'' (fresh None)) = None
   \<and> Calls (ImportState_em ''not-a-number'' (fresh None)) = []
   \<and> Atoi ''42'' = Inr 42
   \<and> (\<exists>n. State (ImportState_em ''42'' (fresh None)) = Some n \<and> ID_em n = Known 42)
   \<and> Diagnostics (ImportState_em ''42'' (fresh None)) = []
   \<and> Calls (ImportState_em ''42'' (fresh None)) = []"
proof -
  have a: "Atoi ''not-a-number'' = Inl ErrSyntax" and b: "Atoi ''42'' = Inr 42"
    by (simp_all add: Atoi_unsigned_def digit_val_def)
  note rejected =
    ImportState_parses_or_rejects
      [of "''not-a-number''" ErrSyntax "fresh None" 0, THEN conjunct1, rule_format, OF a]
  note parsed =
    ImportState_parses_or_rejects
      [of "''42''" ErrSyntax "fresh None" 42, THEN conjunct2, rule_format, OF b]
  from a b rejected parsed show ?thesis
    by (auto simp add: fresh_def Int64Value_def HasError_AddError simp del: Atoi.simps)
qed

section \<open>The notifications list\<close>

lemma Read_ds_success:
  assumes "\<not> HasError (Diagnostics (decoded Config resp))"
    and "ListNotification client = Inr response"
  shows "State (Read_ds k client Config resp) =
           Some \<lparr> Notifications_ds = Known (map (Notification_write k Notification_zero) response),
                  ID_ds = StringValue (Itoa (int (length response))) \<rparr>
         \<and> Diagnostics (Read_ds k client Config resp) = Diagnostics (decoded Config resp)"
  using assms by (simp add: Read_ds_def Let_def resp_simps)

lemma Read_ds_starr_success:
  assumes "\<not> HasError (Diagnostics (decoded Config resp))"
    and "GetNotificationsContext client = Inr response"
  shows "State (Read_ds_starr k client Config resp) =
           Some \<lparr> Notifications_ds =
                    Known (map (Notification_write_starr k Notification_zero) response),
                  ID_ds = StringValue (Itoa (int (length response))) \<rparr>
         \<and> Diagnostics (Read_ds_starr k client Config resp) = Diagnostics (decoded Config resp)"
  using assms by (simp add: Read_ds_starr_def Let_def resp_simps)

text \<open>
  Claim C7. For every successful \<^verbatim>\<open>Read\<close> of the notifications list data source
  (the configuration decodes without error and the remote listing returns \<open>n\<close>
  records), in both revisions: the state holds one generic record per returned record,
  each obtained by the generic \<^verbatim>\<open>write\<close> applied to an empty generic record and that
  returned record, and the \<^verbatim>\<open>id\<close> attribute is the text \<^verbatim>\<open>strconv.Itoa\<close> prints for
  \<open>n\<close>. The same generic \<^verbatim>\<open>write\<close> is the one the custom script and gotify
  resources apply between \<^verbatim>\<open>toNotification\<close> and \<^verbatim>\<open>fromNotification\<close>. That text is
  the decimal representation of \<open>n\<close>: parsing it gives \<open>n\<close> back.
\<close>

theorem notifications_list_maps_each_record:
  "(\<not> HasError (Diagnostics (decoded Config resp)) \<and> ListNotification client = Inr response
    \<longrightarrow> State (Read_ds k client Config resp) =
          Some \<lparr> Notifications_ds = Known (map (Notification_write k Notification_zero) response),
                 ID_ds = StringValue (Itoa (int (length response))) \<rparr>
        \<and> Diagnostics (Read_ds k client Config resp) = Diagnostics (decoded Config resp))
   \<and> (\<not> HasError (Diagnostics (decoded Config resp))
        \<and> GetNotificationsContext lidarr = Inr response'
    \<longrightarrow> State (Read_ds_starr k lidarr Config resp) =
          Some \<lparr> Notifications_ds =
                   Known (map (Notification_write_starr k Notification_zero) response'),
                 ID_ds = StringValue (Itoa (int (length response'))) \<rparr>
        \<and> Diagnostics (Read_ds_starr k lidarr Config resp) = Diagnostics (decoded Config resp))
   \<and> write_cs k c r = fromNotification_cs c (Notification_write k (toNotification_cs c) r)
   \<and> fst (write_go k g r diags) =
       fromNotification_go g (Notification_write k (toNotification_go g) r)
   \<and> (n < 2 ^ 63 \<longrightarrow> Atoi (Itoa (int n)) = Inr (int n))"
proof -
  have "n < 2 ^ 63 \<longrightarrow> Atoi (Itoa (int n)) = Inr (int n)"
    using Atoi_Itoa [of "int n"] by simp
  moreover have "write_cs k c r = fromNotification_cs c (Notification_write k (toNotification_cs c) r)"
    by (simp add: write_cs_def Let_def)
  moreover have "fst (write_go k g r diags) =
       fromNotification_go g (Notification_write k (toNotification_go g) r)"
    by (simp add: write_go_def Let_def)
  ultimately show ?thesis
    using Read_ds_success [of Config resp client response k]
      Read_ds_starr_success [of Config resp lidarr response' k]
    by blast
qed

theorem notifications_list_maps_each_record_witness:
  "State (Read_ds deps_example client_up (clean \<lparr> Notifications_ds = Null, ID_ds = Null \<rparr>)
            (fresh None)) =
     Some \<lparr> Notifications_ds =
              Known [Notification_write deps_example Notification_zero (stored 1 ''a''),
                     Notification_write deps_example Notification_zero (stored 2 ''b''),
                     Notification_write deps_example Notification_zero (stored 3 ''c'')],
            ID_ds = Known ''3'' \<rparr>
   \<and> State (Read_ds_starr deps_example lidarr_up
              (clean \<lparr> Notifications_ds = Null, ID_ds = Null \<rparr>) (fresh None)) =
     Some \<lparr> Notifications_ds =
              Known [Notification_write_starr deps_example Notification_zero (received 1 ''a''),
                     Notification_write_starr deps_example Notification_zero (received 2 ''b'')],
            ID_ds = Known ''2'' \<rparr>
   \<and> Atoi ''3'' = Inr 3"
proof -
  have up: "ListNotification client_up = Inr [stored 1 ''a'', stored 2 ''b'', stored 3 ''c'']"
    and up': "GetNotificationsContext lidarr_up = Inr [received 1 ''a'', received 2 ''b'']"
    by (simp_all add: client_up_def lidarr_up_def)
  have three: "Itoa 3 = ''3''" and two: "Itoa 2 = ''2''"
    by (simp_all add: Itoa_def Itoa_nat.simps digit_char_def)
  note t = notifications_list_maps_each_record
    [of "clean \<lparr> Notifications_ds = Null, ID_ds = Null \<rparr>" "fresh None" client_up
        "[stored 1 ''a'', stored 2 ''b'', stored 3 ''c'']" deps_example lidarr_up
        "[received 1 ''a'', received 2 ''b'']" _ _ _ _ 3]
  from t up up' three two show ?thesis
    by (simp add: clean_ok StringValue_def del: Atoi.simps)
qed

section \<open>The gotify priority\<close>



section \<open>Configure\<close>

text \<open>
  Claim C9, as stated: \<^verbatim>\<open>Configure\<close> without a client handle always ends in a fatal
  error. It fails for the email resource and the indexer data source at a request whose
  provider data is nil: both return with no diagnostic and no client.
\<close>

theorem Configure_without_provider_data_counterexample:
  "Configure_em \<lparr> client_em = None \<rparr> NilProviderData [] = (\<lparr> client_em = None \<rparr>, [])
   \<and> \<not> HasError (snd (Configure_em \<lparr> client_em = None \<rparr> NilProviderData []))
   \<and> Configure_ix \<lparr> client_ix = None \<rparr> NilProviderData [] = (\<lparr> client_ix = None \<rparr>, [])
   \<and> \<not> HasError (snd (Configure_ix \<lparr> client_ix = None \<rparr> NilProviderData []))"
  by (simp add: Configure_em_def Configure_ix_def HasError_def)

text \<open>
  Claim C9, amended. \<^verbatim>\<open>Configure\<close> of the email resource and of the indexer data
  source returns without a diagnostic and leaves the adapter unchanged when the provider
  data is nil (the guard for a provider that has not been configured yet); it adds an
  error diagnostic and leaves the adapter unchanged when the provider data is of another
  type than the client handle; and it stores the handle, adding no diagnostic, when given
  one.
\<close>

theorem Configure_outcomes:
  "Configure_em r NilProviderData diags = (r, diags)
   \<and> fst (Configure_em r (OtherProviderData ty) diags) = r
   \<and> HasError (snd (Configure_em r (OtherProviderData ty) diags))
   \<and> Configure_em r (LidarrHandle c) diags = (r \<lparr> client_em := Some c \<rparr>, diags)
   \<and> Configure_ix d NilProviderData diags = (d, diags)
   \<and> fst (Configure_ix d (OtherProviderData ty) diags) = d
   \<and> HasError (snd (Configure_ix d (OtherProviderData ty) diags))
   \<and> Configure_ix d (LidarrHandle c) diags = (d \<lparr> client_ix := Some c \<rparr>, diags)"
  by (simp add: Configure_em_def Configure_ix_def HasError_AddError)

section \<open>Looking an indexer up by name\<close>

lemma findIndexer_skip:
  "\<forall>j \<in> set pre. io_Name j \<noteq> name \<Longrightarrow> findIndexer name (pre @ rest) = findIndexer name rest"
  by (induction pre) simp_all

lemma findIndexer_Inr_split:
  "findIndexer name indexers = Inr i \<Longrightarrow>
     \<exists>pre post. indexers = pre @ i # post \<and> io_Name i = name \<and> (\<forall>j \<in> set pre. io_Name j \<noteq> name)"
proof (induction indexers)
  case Nil
  then show ?case by simp
next
  case (Cons x xs)
  show ?case
  proof (cases "io_Name x = name")
    case True
    with Cons.prems have "x = i" by simp
    with True have "x # xs = [] @ i # xs \<and> io_Name i = name \<and> (\<forall>j \<in> set []. io_Name j \<noteq> name)"
      by simp
    then show ?thesis by blast
  next
    case False
    with Cons.prems have "findIndexer name xs = Inr i" by simp
    with Cons.IH obtain pre post where
      h: "xs = pre @ i # post" "io_Name i = name" "\<forall>j \<in> set pre. io_Name j \<noteq> name"
      by blast
    with False have "x # xs = (x # pre) @ i # post \<and> io_Name i = name
        \<and> (\<forall>j \<in> set (x # pre). io_Name j \<noteq> name)"
      by simp
    then show ?thesis by blast
  qed
qed

lemma findIndexer_Inl_iff:
  "(findIndexer name indexers = Inl e) =
     (e = ErrDataNotFoundError indexerDataSourceName ''name'' name
      \<and> (\<forall>j \<in> set indexers. io_Name j \<noteq> name))"
  by (induction indexers) auto

lemma Read_ix_error_iff:
  assumes "\<not> HasError (Diagnostics (decoded st resp))"
    and "GetIndexersContext client = Inr response"
  shows "HasError (Diagnostics (Read_ix Name' write' client st resp)) =
           (\<forall>j \<in> set response. io_Name j \<noteq> ValueString (Name' (Get_value st)))"
proof (cases "findIndexer (ValueString (Name' (Get_value st))) response")
  case (Inl e)
  with assms show ?thesis
    by (simp add: Read_ix_def Let_def resp_simps HasError_AddError findIndexer_Inl_iff [symmetric])
       (simp add: findIndexer_Inl_iff)
next
  case (Inr i)
  then have "\<not> (\<forall>j \<in> set response. io_Name j \<noteq> ValueString (Name' (Get_value st)))"
    using findIndexer_Inl_iff [of "ValueString (Name' (Get_value st))" response] 
    by (metis Inl_Inr_False)
  with Inr assms show ?thesis
    by (simp add: Read_ix_def Let_def resp_simps)
qed

text \<open>
  Claim C10. For every requested name and every list of remote indexers,
  \<^verbatim>\<open>findIndexer\<close> returns an indexer exactly when that indexer stands in the list,
  carries the requested name, and no indexer before it does (names compared character by
  character); it returns the data-not-found error exactly when no indexer of the list has
  the name, and no other error. The data source's \<^verbatim>\<open>Read\<close>, once the state has decoded
  and the listing has returned, reports an error if and only if no listed indexer has the
  requested name.
\<close>

theorem findIndexer_first_match:
  "(findIndexer name indexers = Inr i) =
     (\<exists>pre post. indexers = pre @ i # post \<and> io_Name i = name
        \<and> (\<forall>j \<in> set pre. io_Name j \<noteq> name))
   \<and> (findIndexer name indexers = Inl (ErrDataNotFoundError indexerDataSourceName ''name'' name))
      = (\<forall>j \<in> set indexers. io_Name j \<noteq> name)
   \<and> (findIndexer name indexers = Inl e \<longrightarrow>
        e = ErrDataNotFoundError indexerDataSourceName ''name'' name)
   \<and> (\<not> HasError (Diagnostics (decoded st resp)) \<and> GetIndexersContext client = Inr indexers
      \<longrightarrow> HasError (Diagnostics (Read_ix Name' write' client st resp)) =
            (\<forall>j \<in> set indexers. io_Name j \<noteq> ValueString (Name' (Get_value st))))"
proof (intro conjI)
  show "(findIndexer name indexers = Inr i) =
     (\<exists>pre post. indexers = pre @ i # post \<and> io_Name i = name
        \<and> (\<forall>j \<in> set pre. io_Name j \<noteq> name))"
  proof
    assume "findIndexer name indexers = Inr i"
    then show "\<exists>pre post. indexers = pre @ i # post \<and> io_Name i = name
        \<and> (\<forall>j \<in> set pre. io_Name j \<noteq> name)"
      by (rule findIndexer_Inr_split)
  next
    assume "\<exists>pre post. indexers = pre @ i # post \<and> io_Name i = name
        \<and> (\<forall>j \<in> set pre. io_Name j \<noteq> name)"
    then obtain pre post where
      h: "indexers = pre @ i # post" "io_Name i = name" "\<forall>j \<in> set pre. io_Name j \<noteq> name"
      by blast
    from h(3) have "findIndexer name (pre @ i # post) = findIndexer name (i # post)"
      by (rule findIndexer_skip)
    with h(1,2) show "findIndexer name indexers = Inr i" by simp
  qed
next
  show "(findIndexer name indexers = Inl (ErrDataNotFoundError indexerDataSourceName ''name'' name))
      = (\<forall>j \<in> set indexers. io_Name j \<noteq> name)"
    by (simp add: findIndexer_Inl_iff)
next
  show "findIndexer name indexers = Inl e \<longrightarrow>
        e = ErrDataNotFoundError indexerDataSourceName ''name'' name"
    by (simp add: findIndexer_Inl_iff)
next
  show "\<not> HasError (Diagnostics (decoded st resp)) \<and> GetIndexersContext client = Inr indexers
      \<longrightarrow> HasError (Diagnostics (Read_ix Name' write' client st resp)) =
            (\<forall>j \<in> set indexers. io_Name j \<noteq> ValueString (Name' (Get_value st)))"
    using Read_ix_error_iff by blast
qed

theorem findIndexer_first_match_witness:
  "findIndexer ''Foo'' [indexer 1 ''foo'', indexer 2 ''Foo'', indexer 3 ''Foo''] =
     Inr (indexer 2 ''Foo'')
   \<and> findIndexer ''FOO'' [indexer 1 ''foo'', indexer 2 ''Foo'', indexer 3 ''Foo''] =
     Inl (ErrDataNotFoundError ''indexer'' ''name'' ''FOO'')
   \<and> HasError (Diagnostics (Read_ix id (\<lambda>d i. StringValue (io_Name i)) lidarr_up
                  (clean (StringValue ''FOO'')) (fresh None)))
   \<and> \<not> HasError (Diagnostics (Read_ix id (\<lambda>d i. StringValue (io_Name i)) lidarr_up
                  (clean (StringValue ''Foo'')) (fresh None)))"
proof -
  let ?xs = "[indexer 1 ''foo'', indexer 2 ''Foo'', indexer 3 ''Foo'']"
  let ?w = "\<lambda>(d :: types_String) i. StringValue (io_Name i)"
  have up: "GetIndexersContext lidarr_up = Inr ?xs"
    by (simp add: lidarr_up_def)
  have ex: "\<exists>pre post. ?xs = pre @ indexer 2 ''Foo'' # post
      \<and> io_Name (indexer 2 ''Foo'') = ''Foo'' \<and> (\<forall>j \<in> set pre. io_Name j \<noteq> ''Foo'')"
    by (intro exI [of _ "[indexer 1 ''foo'']"] exI [of _ "[indexer 3 ''Foo'']"])
       (simp add: indexer_def)
  have none: "\<forall>j \<in> set ?xs. io_Name j \<noteq> ''FOO''"
    and some: "\<not> (\<forall>j \<in> set ?xs. io_Name j \<noteq> ''Foo'')"
    by (simp_all add: indexer_def)
  note found =
    findIndexer_first_match
      [where name = "''Foo''" and indexers = ?xs and i = "indexer 2 ''Foo''", THEN conjunct1]
  note missing =
    findIndexer_first_match
      [where name = "''FOO''" and indexers = ?xs, THEN conjunct2, THEN conjunct1]
  note reported =
    findIndexer_first_match
      [where indexers = ?xs and resp = "fresh None" and client = lidarr_up and Name' = id
         and write' = ?w,
       THEN conjunct2, THEN conjunct2, THEN conjunct2, rule_format, OF conjI [OF clean_ok up]]
  from found ex have 1: "findIndexer ''Foo'' ?xs = Inr (indexer 2 ''Foo'')"
    by (simp del: findIndexer.simps)
  from missing none
  have 2: "findIndexer ''FOO'' ?xs = Inl (ErrDataNotFoundError ''indexer'' ''name'' ''FOO'')"
    by (simp add: indexerDataSourceName_def del: findIndexer.simps)
  from reported [of "StringValue ''FOO''"] none
  have 3: "HasError (Diagnostics (Read_ix id ?w lidarr_up
                  (clean (StringValue ''FOO'')) (fresh None)))"
    by (simp add: clean_def StringValue_def)
  from reported [of "StringValue ''Foo''"] some
  have 4: "\<not> HasError (Diagnostics (Read_ix id ?w lidarr_up
                  (clean (StringValue ''Foo'')) (fresh None)))"
    by (simp add: clean_def StringValue_def)
  from 1 2 3 4 show ?thesis by (simp del: findIndexer.simps)
qed

end
